theory Spec2Isabelle
  imports Main "HOL-Library.Sublist" "HOL-Library.AList"
begin

section \<open>Jellyfin playlist generator: a shallow embedding of simple\_playlist.py\<close>

text \<open>
  The theory follows the class \<open>JellyfinPlaylistGenerator\<close> method by method.
  Modelling conventions:
  \<^item> Python strings are HOL strings; the model reads them as ASCII text
    (\<open>lower\<close> changes the letters A to Z only).
  \<^item> A JSON object read with \<open>.get(key, default)\<close> is a record of optional fields,
    typed as the server's API declares them; \<open>None\<close> is a key that is absent (or null,
    for the fields the code tests for truth).
  \<^item> An HTTP call is a function of the server's state that returns the decoded
    response and the next state, so a server may answer the same request differently
    each time.
  \<^item> An exception is a value: either a branch of the \<open>http\<close> response that the
    \<open>except\<close> clause handles, or an \<open>Inl\<close> result where nothing catches it.
  \<^item> The \<open>while True\<close> loop of the paginated fetch may run forever, so it is a
    partial function into \<open>option\<close>: \<open>None\<close> is a loop that never returns.
  \<^item> Console output is modelled where a property speaks of it (library discovery);
    the other \<open>print\<close> calls influence neither control flow nor files and are left out.
\<close>

subsection \<open>Strings\<close>

definition digit_char :: "nat \<Rightarrow> char" where
  "digit_char d = ''0123456789'' ! d"

text \<open>Python's \<open>str\<close> on a non-negative integer, and on any integer.\<close>

fun str_nat :: "nat \<Rightarrow> string" where
  "str_nat n = (if n < 10 then [digit_char n] else str_nat (n div 10) @ [digit_char (n mod 10)])"

declare str_nat.simps [simp del]

definition str_int :: "int \<Rightarrow> string" where
  "str_int i = (if i < 0 then CHR ''-'' # str_nat (nat (- i)) else str_nat (nat i))"

text \<open>\<open>str.lower\<close> on ASCII text.\<close>

definition lower_char :: "char \<Rightarrow> char" where
  "lower_char c =
     (case map_of (zip ''ABCDEFGHIJKLMNOPQRSTUVWXYZ'' ''abcdefghijklmnopqrstuvwxyz'') c of
        None \<Rightarrow> c
      | Some d \<Rightarrow> d)"

definition lower :: "string \<Rightarrow> string" where
  "lower s = map lower_char s"

text \<open>The truth value of an optional string: \<open>None\<close> and the empty string are false.\<close>

fun truthy :: "string option \<Rightarrow> bool" where
  "truthy None = False"
| "truthy (Some s) = (s \<noteq> [])"

subsection \<open>Data model\<close>

text \<open>The generator object: \<open>self.server_url\<close> and \<open>self.api_key\<close> after \<open>__init__\<close>.\<close>

record session =
  server_url :: string
  api_key :: string

text \<open>A movie item of an \<open>/Items\<close> response, with the three keys the generator reads:
  \<open>Id\<close>, \<open>Name\<close> and \<open>RunTimeTicks\<close>.\<close>

record movie =
  movie_id :: "string option"
  movie_name :: "string option"
  run_time_ticks :: "int option"

datatype py_error = UnboundLocalError | EOFError

subsection \<open>Stream URLs\<close>

definition get_stream_url_simple :: "session \<Rightarrow> string \<Rightarrow> string" where
  "get_stream_url_simple S item_id =
     server_url S @ ''/Videos/'' @ item_id @ ''/stream.mp4?static=true''"

definition get_stream_url_with_key :: "session \<Rightarrow> string \<Rightarrow> string" where
  "get_stream_url_with_key S item_id =
     server_url S @ ''/Videos/'' @ item_id @ ''/stream.mp4?api_key='' @ api_key S @ ''&static=true''"

subsection \<open>Per-library rendering: \<open>generate_playlist_for_library\<close>\<close>

text \<open>The header, lines 188 to 200 of the source.\<close>

definition library_header :: "session \<Rightarrow> nat \<Rightarrow> string \<Rightarrow> string \<Rightarrow> string" where
  "library_header S n library_name url_type =
     ''#EXTM3U\<newline>''
     @ ''# Jellyfin Playlist - '' @ library_name @ ''\<newline>''
     @ ''# Generated from: '' @ server_url S @ ''\<newline>''
     @ ''# Total movies: '' @ str_nat n @ ''\<newline>''
     @ (if url_type = ''simple'' then
          ''# URL Format: '' @ server_url S @ ''/Videos/ID/stream.mp4?static=true\<newline>''
          @ ''# Note: May work without authentication in VLC\<newline>''
        else if url_type = ''with_key'' then
          ''# URL Format: '' @ server_url S @ ''/Videos/ID/stream.mp4?api_key=XXX&static=true\<newline>''
          @ ''# Note: Contains API key in URL\<newline>''
        else [])
     @ ''\<newline>''"

text \<open>One iteration of the loop over the movies, lines 203 to 218: the playlist text so
  far and a movie give the playlist text after it.\<close>

definition library_entry :: "session \<Rightarrow> string \<Rightarrow> string \<Rightarrow> movie \<Rightarrow> string" where
  "library_entry S url_type playlist m =
     (let item_id = movie_id m;
          name = (case movie_name m of None \<Rightarrow> ''Unknown'' | Some n \<Rightarrow> n);
          duration_ticks = (case run_time_ticks m of None \<Rightarrow> 0 | Some t \<Rightarrow> t);
          duration_sec = (if duration_ticks \<noteq> 0 then duration_ticks div 10000000 else - 1)
      in if truthy item_id then
           (let url = (if url_type = ''simple'' then get_stream_url_simple S (the item_id)
                       else if url_type = ''with_key'' then get_stream_url_with_key S (the item_id)
                       else get_stream_url_simple S (the item_id))
            in playlist @ ''#EXTINF:'' @ str_int duration_sec @ '','' @ name @ ''\<newline>''
                 @ url @ ''\<newline>'')
         else playlist)"

definition generate_playlist_for_library ::
  "session \<Rightarrow> movie list \<Rightarrow> string \<Rightarrow> string \<Rightarrow> string option" where
  "generate_playlist_for_library S movies library_name url_type =
     (if movies = [] then None
      else Some (foldl (library_entry S url_type)
                   (library_header S (length movies) library_name url_type) movies))"

subsection \<open>Combined rendering: the inline code of \<open>generate_playlists\<close>\<close>

text \<open>The header, lines 390 to 398 of the source.\<close>

definition combined_header :: "session \<Rightarrow> nat \<Rightarrow> string \<Rightarrow> string" where
  "combined_header S n url_type =
     ''#EXTM3U\<newline>''
     @ ''# Jellyfin Playlist - All Movies\<newline>''
     @ ''# Generated from: '' @ server_url S @ ''\<newline>''
     @ ''# Total movies: '' @ str_nat n @ ''\<newline>''
     @ (if url_type = ''simple'' then
          ''# URL Format: '' @ server_url S @ ''/Videos/ID/stream.mp4?static=true\<newline>\<newline>''
        else if url_type = ''with_key'' then
          ''# URL Format: '' @ server_url S @ ''/Videos/ID/stream.mp4?api_key=XXX&static=true\<newline>\<newline>''
        else [])"

text \<open>The loop of lines 400 to 413. The variable \<open>url\<close> is assigned in the two branches
  \<open>simple\<close> and \<open>with_key\<close> only: the state of the loop is the text so far and the
  value of \<open>url\<close>, \<open>None\<close> while it is unbound, and reading it unbound raises
  \<open>UnboundLocalError\<close>.\<close>

fun combined_entries ::
  "session \<Rightarrow> string \<Rightarrow> movie list \<Rightarrow> string \<times> string option \<Rightarrow> py_error + string" where
  "combined_entries S url_type [] (combined_playlist, url) = Inr combined_playlist"
| "combined_entries S url_type (m # ms) (combined_playlist, url) =
     (let item_id = movie_id m;
          name = (case movie_name m of None \<Rightarrow> ''Unknown'' | Some n \<Rightarrow> n);
          duration_ticks = (case run_time_ticks m of None \<Rightarrow> 0 | Some t \<Rightarrow> t);
          duration_sec = (if duration_ticks \<noteq> 0 then duration_ticks div 10000000 else - 1)
      in if truthy item_id then
           (let url' = (if url_type = ''simple'' then Some (get_stream_url_simple S (the item_id))
                        else if url_type = ''with_key'' then Some (get_stream_url_with_key S (the item_id))
                        else url)
            in case url' of
                 None \<Rightarrow> Inl UnboundLocalError
               | Some u \<Rightarrow>
                   combined_entries S url_type ms
                     (combined_playlist @ ''#EXTINF:'' @ str_int duration_sec @ '','' @ name @ ''\<newline>''
                        @ u @ ''\<newline>'', url'))
         else combined_entries S url_type ms (combined_playlist, url))"

text \<open>The text of the combined playlist for a non-empty list of movies (the caller
  tests \<open>if all_movies_combined\<close> before rendering).\<close>

definition combined_playlist_text :: "session \<Rightarrow> movie list \<Rightarrow> string \<Rightarrow> py_error + string" where
  "combined_playlist_text S all_movies_combined url_type =
     combined_entries S url_type all_movies_combined
       (combined_header S (length all_movies_combined) url_type, None)"

subsection \<open>The server\<close>

text \<open>What \<open>self.session.get\<close> gives the caller: the call raises (with the exception's
  message), or it returns a response with a status code and a body, where decoding the
  body with \<open>response.json()\<close> raises (\<open>Inl\<close>, with the message) or yields the data.\<close>

datatype 'a http = Raised string | Response nat "string + 'a"

text \<open>An entry of the \<open>/Library/MediaFolders\<close> listing, keys \<open>Name\<close> and \<open>Id\<close>.\<close>

record folder =
  folder_name :: "string option"
  folder_id :: "string option"

text \<open>The body of an \<open>/Items\<close> page, keys \<open>Items\<close> and \<open>TotalRecordCount\<close>.\<close>

record items_body =
  body_items :: "movie list option"
  total_record_count :: "int option"

text \<open>The four requests the generator sends. Each takes the server's state and returns
  the next one. The folder listing's body is the value of its key \<open>Items\<close>; the probe's
  body is the value of \<open>Items\<close>, each item given by its key \<open>Type\<close>; the probe's
  argument is \<open>ParentId\<close>; the page's arguments are \<open>ParentId\<close> (if sent) and
  \<open>StartIndex\<close>; \<open>Limit\<close> is always 1000.\<close>

record 's server =
  get_system_info :: "'s \<Rightarrow> string option http \<times> 's"
  get_media_folders :: "'s \<Rightarrow> folder list option http \<times> 's"
  get_items_probe :: "string \<Rightarrow> 's \<Rightarrow> string option list option http \<times> 's"
  get_items_page :: "string option \<Rightarrow> nat \<Rightarrow> 's \<Rightarrow> items_body http \<times> 's"

subsection \<open>Library discovery: \<open>get_library_types\<close> and \<open>get_libraries\<close>\<close>

record library =
  l_id :: string
  l_name :: string
  l_type :: string

definition get_library_types :: "'s server \<Rightarrow> string \<Rightarrow> 's \<Rightarrow> string list \<times> 's" where
  "get_library_types srv library_id st =
     (case get_items_probe srv library_id st of
        (Raised e, st') \<Rightarrow> ([''Unknown''], st')
      | (Response code body, st') \<Rightarrow>
          if code = 200 then
            (case body of
               Inl e \<Rightarrow> ([''Unknown''], st')
             | Inr data \<Rightarrow>
                 (case (case data of None \<Rightarrow> [] | Some items \<Rightarrow> items) of
                    [] \<Rightarrow> ([''Unknown''], st')
                  | item # _ \<Rightarrow> ([case item of None \<Rightarrow> ''Unknown'' | Some t \<Rightarrow> t], st')))
          else ([''Unknown''], st'))"

text \<open>The loop of \<open>get_libraries\<close> over the entries of the listing, lines 54 to 74.\<close>

fun libraries_loop :: "'s server \<Rightarrow> folder list \<Rightarrow> library list \<Rightarrow> 's \<Rightarrow> library list \<times> 's" where
  "libraries_loop srv [] libraries st = (libraries, st)"
| "libraries_loop srv (item # items) libraries st =
     (let library_name = (case folder_name item of None \<Rightarrow> [] | Some n \<Rightarrow> n);
          library_id = (case folder_id item of None \<Rightarrow> [] | Some i \<Rightarrow> i)
      in if library_name \<noteq> [] \<and>
            (sublist ''movie'' (lower library_name) \<or> sublist ''movies'' (lower library_name))
         then libraries_loop srv items
                (libraries @ [\<lparr>l_id = library_id, l_name = library_name, l_type = ''Movie''\<rparr>]) st
         else if library_name \<noteq> [] then
           (case get_library_types srv library_id st of
              (library_types, st') \<Rightarrow>
                if ''Movie'' \<in> set library_types
                then libraries_loop srv items
                       (libraries @ [\<lparr>l_id = library_id, l_name = library_name, l_type = ''Mixed''\<rparr>]) st'
                else libraries_loop srv items libraries st')
         else libraries_loop srv items libraries st)"

text \<open>\<open>get_libraries\<close> returns the libraries, the lines it printed, and the server's
  next state.\<close>

definition get_libraries :: "'s server \<Rightarrow> 's \<Rightarrow> (library list \<times> string list) \<times> 's" where
  "get_libraries srv st =
     (case get_media_folders srv st of
        (Raised e, st') \<Rightarrow> (([], [''Error fetching libraries: '' @ e]), st')
      | (Response code body, st') \<Rightarrow>
          if code = 200 then
            (case body of
               Inl e \<Rightarrow> (([], [''Error fetching libraries: '' @ e]), st')
             | Inr data \<Rightarrow>
                 (case libraries_loop srv (case data of None \<Rightarrow> [] | Some items \<Rightarrow> items) [] st' of
                    (libraries, st'') \<Rightarrow> ((libraries, []), st'')))
          else (([], []), st'))"

subsection \<open>Paginated fetch: \<open>get_movies_from_library\<close>\<close>

text \<open>The \<open>while True\<close> loop, lines 130 to 150, with its variables \<open>all_items\<close> and
  \<open>start_index\<close>. It returns \<open>all_items\<close> and the server's state when it breaks, and
  \<open>None\<close> when it never does.\<close>

partial_function (option) fetch_loop ::
  "'s server \<Rightarrow> string option \<Rightarrow> movie list \<Rightarrow> nat \<Rightarrow> 's \<Rightarrow> (movie list \<times> 's) option" where
  "fetch_loop srv parent_id all_items start_index st =
     (case get_items_page srv parent_id start_index st of
        (Raised e, st') \<Rightarrow> Some (all_items, st')
      | (Response code body, st') \<Rightarrow>
          if code = 200 then
            (case body of
               Inl e \<Rightarrow> Some (all_items, st')
             | Inr data \<Rightarrow>
                 (let items = (case body_items data of None \<Rightarrow> [] | Some xs \<Rightarrow> xs);
                      total = (case total_record_count data of None \<Rightarrow> 0 | Some t \<Rightarrow> t);
                      all_items' = all_items @ items
                  in if int (length all_items') \<ge> total then Some (all_items', st')
                     else fetch_loop srv parent_id all_items' (start_index + length items) st'))
          else Some (all_items, st'))"

declare fetch_loop.simps [code]

text \<open>The library filter, lines 115 to 123: the value of \<open>params['ParentId']\<close>, if set.\<close>

definition library_filter ::
  "'s server \<Rightarrow> string option \<Rightarrow> string option \<Rightarrow> 's \<Rightarrow> string option \<times> 's" where
  "library_filter srv library_name library_id st =
     (if truthy library_id then (library_id, st)
      else if truthy library_name then
        (case get_libraries srv st of
           ((libraries, printed), st') \<Rightarrow>
             (map_option l_id
                (find (\<lambda>lib. lower (l_name lib) = lower (the library_name)) libraries), st'))
      else (None, st))"

definition get_movies_from_library ::
  "'s server \<Rightarrow> string option \<Rightarrow> string option \<Rightarrow> 's \<Rightarrow> (movie list \<times> 's) option" where
  "get_movies_from_library srv library_name library_id st =
     (case library_filter srv library_name library_id st of
        (parent_id, st') \<Rightarrow> fetch_loop srv parent_id [] 0 st')"

text \<open>\<open>get_all_movies\<close>: the loop over the selected names, then the method.\<close>

fun all_movies_loop ::
  "'s server \<Rightarrow> string list \<Rightarrow> movie list \<Rightarrow> 's \<Rightarrow> (movie list \<times> 's) option" where
  "all_movies_loop srv [] all_movies st = Some (all_movies, st)"
| "all_movies_loop srv (lib_name # rest) all_movies st =
     (case get_movies_from_library srv (Some lib_name) None st of
        None \<Rightarrow> None
      | Some (movies, st') \<Rightarrow>
          all_movies_loop srv rest (if movies \<noteq> [] then all_movies @ movies else all_movies) st')"

definition get_all_movies :: "'s server \<Rightarrow> string list \<Rightarrow> 's \<Rightarrow> (movie list \<times> 's) option" where
  "get_all_movies srv selected_libraries st =
     (if selected_libraries = [] \<or> ''all'' \<in> set selected_libraries
      then get_movies_from_library srv None None st
      else all_movies_loop srv selected_libraries [] st)"

subsection \<open>Writing the playlist files: the second half of \<open>generate_playlists\<close>\<close>

text \<open>Writing a file succeeds or raises; \<open>wr filename content\<close> tells which. The
  disk is the list of the writes that succeeded, in order, each with its file name and
  content; a write that raises leaves no trace on it. A playlist's name joins
  \<open>saved_files\<close> after a successful write only.\<close>

definition write_playlist ::
  "(string \<Rightarrow> string \<Rightarrow> bool) \<Rightarrow> string \<Rightarrow> string \<Rightarrow> string list \<times> (string \<times> string) list
     \<Rightarrow> string list \<times> (string \<times> string) list" where
  "write_playlist wr filename content fs =
     (case fs of (saved_files, d) \<Rightarrow>
        if wr filename content then (saved_files @ [filename], d @ [(filename, content)])
        else (saved_files, d))"

definition replace_char :: "char \<Rightarrow> char \<Rightarrow> string \<Rightarrow> string" where
  "replace_char a b s = map (\<lambda>c. if c = a then b else c) s"

definition safe_name :: "string \<Rightarrow> string" where
  "safe_name lib_name =
     replace_char (CHR 0x5C) (CHR ''_'') (replace_char (CHR ''/'') (CHR ''_'')
       (replace_char (CHR '' '') (CHR ''_'') lib_name))"

definition type_suffix :: "string \<Rightarrow> string" where
  "type_suffix url_type =
     (if url_type = ''simple'' then ''_simple''
      else if url_type = ''with_key'' then ''_with_api_key''
      else [])"

text \<open>The loop over \<open>library_movies.items()\<close>, lines 359 to 380. The dictionary is an
  association list in insertion order.\<close>

fun library_files ::
  "session \<Rightarrow> (string \<Rightarrow> string \<Rightarrow> bool) \<Rightarrow> string \<Rightarrow> (string \<times> movie list) list
     \<Rightarrow> string list \<times> (string \<times> string) list \<Rightarrow> string list \<times> (string \<times> string) list" where
  "library_files S wr url_type [] fs = fs"
| "library_files S wr url_type ((lib_name, movies) # rest) fs =
     (if movies = [] then library_files S wr url_type rest fs
      else
        (let filename = ''jellyfin_'' @ safe_name lib_name @ type_suffix url_type @ ''.m3u'';
             playlist_content = generate_playlist_for_library S movies lib_name url_type
         in if truthy playlist_content
            then library_files S wr url_type rest (write_playlist wr filename (the playlist_content) fs)
            else library_files S wr url_type rest fs))"

text \<open>The combined playlist, lines 383 to 423. An exception of the rendering is not
  caught: it is returned with the files as they are then.\<close>

definition combined_file ::
  "session \<Rightarrow> (string \<Rightarrow> string \<Rightarrow> bool) \<Rightarrow> string \<Rightarrow> (string \<times> movie list) list
     \<Rightarrow> string list \<times> (string \<times> string) list
     \<Rightarrow> py_error option \<times> string list \<times> (string \<times> string) list" where
  "combined_file S wr url_type library_movies fs =
     (if length library_movies > 1 then
        (let all_movies_combined = concat (map snd library_movies)
         in if all_movies_combined \<noteq> [] then
              (case combined_playlist_text S all_movies_combined url_type of
                 Inl e \<Rightarrow> (Some e, fs)
               | Inr combined_playlist \<Rightarrow>
                   (None, write_playlist wr (''jellyfin_ALL_MOVIES'' @ type_suffix url_type @ ''.m3u'')
                            combined_playlist fs))
            else (None, fs))
      else (None, fs))"

text \<open>The loop over \<open>url_types\<close>, lines 350 to 423.\<close>

fun playlists_loop ::
  "session \<Rightarrow> (string \<Rightarrow> string \<Rightarrow> bool) \<Rightarrow> (string \<times> movie list) list \<Rightarrow> string list
     \<Rightarrow> string list \<times> (string \<times> string) list
     \<Rightarrow> py_error option \<times> string list \<times> (string \<times> string) list" where
  "playlists_loop S wr library_movies [] fs = (None, fs)"
| "playlists_loop S wr library_movies (url_type # rest) fs =
     (case combined_file S wr url_type library_movies
             (library_files S wr url_type library_movies fs) of
        (Some e, fs') \<Rightarrow> (Some e, fs')
      | (None, fs') \<Rightarrow> playlists_loop S wr library_movies rest fs')"

subsection \<open>The summary: \<open>create_summary_file\<close>\<close>

fun join :: "string \<Rightarrow> string list \<Rightarrow> string" where
  "join sep [] = []"
| "join sep [x] = x"
| "join sep (x # y # ys) = x @ sep @ join sep (y # ys)"

text \<open>The second f-string, lines 496 to 535.\<close>

definition summary_notes :: "session \<Rightarrow> string" where
  "summary_notes S =
     ''\<newline>''
     @ ''\<newline>''
     @ ''## URL Formats Used:\<newline>''
     @ ''\<newline>''
     @ ''### Simple URLs (jellyfin_*_simple.m3u):\<newline>''
     @ server_url S @ ''/Videos/ITEM_ID/stream.mp4?static=true\<newline>''
     @ ''\<newline>''
     @ ''### URLs with API Key (jellyfin_*_with_api_key.m3u):\<newline>''
     @ server_url S @ ''/Videos/ITEM_ID/stream.mp4?api_key='' @ take 10 (api_key S) @ ''...&static=true\<newline>''
     @ ''\<newline>''
     @ ''## Why Simple URLs May Work:\<newline>''
     @ ''\<newline>''
     @ ''1. **?static=true** parameter may bypass some authentication checks\<newline>''
     @ ''2. Jellyfin may have '' @ [CHR 0x22] @ ''Allow playback without authentication'' @ [CHR 0x22] @ '' enabled\<newline>''
     @ ''3. Your network may be trusted (local IP range)\<newline>''
     @ ''4. Session cookies from browser may still be valid\<newline>''
     @ ''\<newline>''
     @ ''## Testing:\<newline>''
     @ ''\<newline>''
     @ ''To test which URL works:\<newline>''
     @ ''1. Get a movie ID from Jellyfin web interface\<newline>''
     @ ''2. Try in VLC: '' @ server_url S @ ''/Videos/MOVIE_ID/stream.mp4?static=true\<newline>''
     @ ''3. If it plays, use the '' @ [CHR 0x22] @ ''simple'' @ [CHR 0x22] @ '' playlists\<newline>''
     @ ''4. If not, try with API key\<newline>''
     @ ''\<newline>''
     @ ''## VLC Settings (if needed):\<newline>''
     @ ''\<newline>''
     @ ''If authentication is required:\<newline>''
     @ ''1. Open VLC > Tools > Preferences > Show All Settings\<newline>''
     @ ''2. Input/Codecs > Access modules > HTTP\<newline>''
     @ ''3. Add header: X-Emby-Token: '' @ api_key S @ ''\<newline>''
     @ ''4. OR use URLs with API key\<newline>''
     @ ''\<newline>''
     @ ''## Security Note:\<newline>''
     @ ''\<newline>''
     @ ''- URLs with API key expose your API key\<newline>''
     @ ''- Anyone with the playlist can access your Jellyfin server\<newline>''
     @ ''- Use simple URLs if they work\<newline>''
     @ ''- Regenerate API key if playlist is shared accidentally\<newline>''"

text \<open>The text of the summary; \<open>current_time\<close> is what the clock gives, formatted by
  \<open>strftime\<close>.\<close>

definition summary_text ::
  "session \<Rightarrow> string \<Rightarrow> string list \<Rightarrow> (string \<times> movie list) list \<Rightarrow> string list \<Rightarrow> string" where
  "summary_text S current_time saved_files library_movies url_types =
     ''# Jellyfin Playlists Summary\<newline>''
     @ ''\<newline>''
     @ ''## Generated from: '' @ server_url S @ ''\<newline>''
     @ ''## Date: '' @ current_time @ ''\<newline>''
     @ ''## URL Types: '' @ join '', '' url_types @ ''\<newline>''
     @ ''\<newline>''
     @ ''## Playlists Created:\<newline>''
     @ concat (map (\<lambda>file. ''- '' @ file @ ''\<newline>'') saved_files)
     @ ''\<newline>## Library Breakdown:\<newline>''
     @ concat (map (\<lambda>(lib_name, movies). ''- **'' @ lib_name @ ''**: '' @ str_nat (length movies)
                      @ '' movies\<newline>'') library_movies)
     @ ''\<newline>## Total Movies: '' @ str_nat (sum_list (map (\<lambda>(lib_name, movies). length movies) library_movies))
     @ summary_notes S"

text \<open>Writing the summary; a failure is swallowed (\<open>except: pass\<close>).\<close>

definition create_summary_file ::
  "session \<Rightarrow> (string \<Rightarrow> string \<Rightarrow> bool) \<Rightarrow> string \<Rightarrow> string list \<Rightarrow> (string \<times> movie list) list
     \<Rightarrow> string list \<Rightarrow> (string \<times> string) list \<Rightarrow> (string \<times> string) list" where
  "create_summary_file S wr current_time saved_files library_movies url_types d =
     (let summary = summary_text S current_time saved_files library_movies url_types
      in if wr ''PLAYLISTS_SUMMARY.txt'' summary then d @ [(''PLAYLISTS_SUMMARY.txt'', summary)]
         else d)"

subsection \<open>The interactive run: \<open>generate_playlists\<close>\<close>

text \<open>The world of a run: the server's state, the lines still to be read from the
  standard input, and the disk. \<open>input()\<close> on an exhausted input raises \<open>EOFError\<close>,
  which nothing catches.\<close>

record 's world =
  server_state :: 's
  stdin :: "string list"
  disk :: "(string \<times> string) list"

datatype outcome = Returned bool | Crashed py_error

text \<open>\<open>str.strip\<close>, \<open>str.split\<close> on one character, \<open>str.isdigit\<close> and \<open>int\<close> on a
  string of digits, on ASCII text.\<close>

definition is_space :: "char \<Rightarrow> bool" where
  "is_space c = (c \<in> set [CHR 0x09, CHR 0x0A, CHR 0x0B, CHR 0x0C, CHR 0x0D,
                            CHR 0x1C, CHR 0x1D, CHR 0x1E, CHR 0x1F, CHR 0x20])"

definition strip :: "string \<Rightarrow> string" where
  "strip s = rev (dropWhile is_space (rev (dropWhile is_space s)))"

fun split_on :: "char \<Rightarrow> string \<Rightarrow> string list" where
  "split_on sep [] = [[]]"
| "split_on sep (c # cs) =
     (if c = sep then [] # split_on sep cs
      else (case split_on sep cs of [] \<Rightarrow> [[c]] | p # ps \<Rightarrow> (c # p) # ps))"

definition isdigit :: "string \<Rightarrow> bool" where
  "isdigit s = (s \<noteq> [] \<and> list_all (\<lambda>c. c \<in> set ''0123456789'') s)"

definition digit_value :: "char \<Rightarrow> nat" where
  "digit_value c =
     (case map_of (zip ''0123456789'' [0, 1, 2, 3, 4, 5, 6, 7, 8, 9]) c of
        None \<Rightarrow> 0
      | Some d \<Rightarrow> d)"

definition int_of_digits :: "string \<Rightarrow> int" where
  "int_of_digits s = int (foldl (\<lambda>n c. 10 * n + digit_value c) 0 s)"

text \<open>The branch "all libraries", lines 266 to 273 (and 300 to 303, 307 to 310): the
  dictionary \<open>library_movies\<close> is empty before it.\<close>

definition all_libraries ::
  "'s server \<Rightarrow> 's \<Rightarrow> ((string \<times> movie list) list \<times> 's) option" where
  "all_libraries srv st =
     (case get_all_movies srv [''all''] st of
        None \<Rightarrow> None
      | Some (all_movies, st') \<Rightarrow>
          Some (if all_movies \<noteq> [] then AList.update ''All Movies'' all_movies [] else [], st'))"

text \<open>The loop over the selected numbers, lines 285 to 296. The list
  \<open>selected_libraries\<close> is written there and never read, so it is left out.\<close>

fun selection_loop ::
  "'s server \<Rightarrow> library list \<Rightarrow> string list \<Rightarrow> (string \<times> movie list) list \<Rightarrow> 's
     \<Rightarrow> ((string \<times> movie list) list \<times> 's) option" where
  "selection_loop srv libraries [] library_movies st = Some (library_movies, st)"
| "selection_loop srv libraries (num # rest) library_movies st =
     (if isdigit num then
        (let idx = int_of_digits num - 1
         in if 0 \<le> idx \<and> idx < int (length libraries) then
              (let lib_name = l_name (libraries ! nat idx)
               in case get_movies_from_library srv (Some lib_name) None st of
                    None \<Rightarrow> None
                  | Some (movies, st') \<Rightarrow>
                      selection_loop srv libraries rest
                        (if movies \<noteq> [] then AList.update lib_name movies library_movies
                         else library_movies) st')
            else selection_loop srv libraries rest library_movies st)
      else selection_loop srv libraries rest library_movies st)"

text \<open>Library selection, lines 259 to 310: the dictionary \<open>library_movies\<close>, or the
  exception that ended the run.\<close>

definition select_movies ::
  "'s server \<Rightarrow> library list \<Rightarrow> 's world
     \<Rightarrow> ((py_error + (string \<times> movie list) list) \<times> 's world) option" where
  "select_movies srv libraries w =
     (case stdin w of
        [] \<Rightarrow> Some (Inl EOFError, w)
      | line # rest \<Rightarrow>
          (let choice = strip line; w1 = w\<lparr>stdin := rest\<rparr>
           in if choice = ''1'' then
                map_option (\<lambda>(library_movies, st'). (Inr library_movies, w1\<lparr>server_state := st'\<rparr>))
                  (all_libraries srv (server_state w1))
              else if choice = ''2'' then
                (case stdin w1 of
                   [] \<Rightarrow> Some (Inl EOFError, w1)
                 | line2 # rest2 \<Rightarrow>
                     (let selections = strip line2; w2 = w1\<lparr>stdin := rest2\<rparr>
                      in case (if selections \<noteq> []
                               then selection_loop srv libraries
                                      (map strip (split_on (CHR '','') selections)) [] (server_state w2)
                               else Some ([], server_state w2)) of
                           None \<Rightarrow> None
                         | Some (library_movies, st') \<Rightarrow>
                             if library_movies = [] then
                               map_option
                                 (\<lambda>(library_movies, st''). (Inr library_movies, w2\<lparr>server_state := st''\<rparr>))
                                 (all_libraries srv st')
                             else Some (Inr library_movies, w2\<lparr>server_state := st'\<rparr>)))
              else
                map_option (\<lambda>(library_movies, st'). (Inr library_movies, w1\<lparr>server_state := st'\<rparr>))
                  (all_libraries srv (server_state w1))))"

text \<open>The choice of the URL types, lines 325 to 340.\<close>

definition url_types_of_choice :: "string \<Rightarrow> string list" where
  "url_types_of_choice url_choice =
     (if url_choice = ''1'' then [''simple'']
      else if url_choice = ''2'' then [''with_key'']
      else if url_choice = ''3'' then [''simple'', ''with_key'']
      else [''simple''])"

text \<open>Lines 312 to 471: from the selected movies to the end of the method.\<close>

definition write_outputs ::
  "session \<Rightarrow> (string \<Rightarrow> string \<Rightarrow> bool) \<Rightarrow> string \<Rightarrow> (string \<times> movie list) list \<Rightarrow> 's world
     \<Rightarrow> outcome \<times> 's world" where
  "write_outputs S wr current_time library_movies w =
     (if library_movies = [] then (Returned False, w)
      else
        (case stdin w of
           [] \<Rightarrow> (Crashed EOFError, w)
         | line # rest \<Rightarrow>
             (let url_types = url_types_of_choice (strip line)
              in case playlists_loop S wr library_movies url_types ([], disk w) of
                   (Some e, (saved_files, d)) \<Rightarrow> (Crashed e, w\<lparr>stdin := rest, disk := d\<rparr>)
                 | (None, (saved_files, d)) \<Rightarrow>
                     (Returned True,
                      w\<lparr>stdin := rest,
                        disk := create_summary_file S wr current_time saved_files library_movies
                                  url_types d\<rparr>))))"

text \<open>The method: connection test, discovery, selection, output. \<open>None\<close> is a run
  that never ends.\<close>

definition generate_playlists ::
  "'s server \<Rightarrow> session \<Rightarrow> (string \<Rightarrow> string \<Rightarrow> bool) \<Rightarrow> string \<Rightarrow> 's world
     \<Rightarrow> (outcome \<times> 's world) option" where
  "generate_playlists srv S wr current_time w =
     (case get_system_info srv (server_state w) of
        (Raised e, st1) \<Rightarrow> Some (Returned False, w\<lparr>server_state := st1\<rparr>)
      | (Response code body, st1) \<Rightarrow>
          if code = 200 then
            (case body of
               Inl e \<Rightarrow> Some (Returned False, w\<lparr>server_state := st1\<rparr>)
             | Inr info \<Rightarrow>
                 (case get_libraries srv st1 of
                    ((libraries, printed), st2) \<Rightarrow>
                      if libraries = [] then Some (Returned False, w\<lparr>server_state := st2\<rparr>)
                      else
                        (case select_movies srv libraries (w\<lparr>server_state := st2\<rparr>) of
                           None \<Rightarrow> None
                         | Some (Inl e, w') \<Rightarrow> Some (Crashed e, w')
                         | Some (Inr library_movies, w') \<Rightarrow>
                             Some (write_outputs S wr current_time library_movies w'))))
          else Some (Returned False, w\<lparr>server_state := st1\<rparr>))"

subsection \<open>What one movie contributes to a playlist\<close>

text \<open>The two lines of a movie that has an identifier, as both rendering loops write
  them: the \<open>#EXTINF\<close> line with the duration in seconds and the name, then the
  stream URL. It is used to state the properties of the two loops.\<close>

definition entry_lines :: "session \<Rightarrow> string \<Rightarrow> movie \<Rightarrow> string" where
  "entry_lines S url_type m =
     ''#EXTINF:''
     @ str_int (case run_time_ticks m of
                  None \<Rightarrow> - 1
                | Some t \<Rightarrow> if t = 0 then - 1 else t div 10000000)
     @ '','' @ (case movie_name m of None \<Rightarrow> ''Unknown'' | Some n \<Rightarrow> n) @ ''\<newline>''
     @ (if url_type = ''with_key'' then get_stream_url_with_key S (the (movie_id m))
        else get_stream_url_simple S (the (movie_id m))) @ ''\<newline>''"

subsection \<open>Servers for the properties\<close>

text \<open>A server that keeps a log of the requests it received, as its state.\<close>

datatype request =
    Req_info
  | Req_folders
  | Req_probe string
  | Req_page "string option" nat

text \<open>A well-behaved server: it lists \<open>folders\<close>; a probe of a folder returns the
  first of the items \<open>types_in\<close> gives for it (\<open>Limit\<close> is 1), by its type; a page
  request for a scope at \<open>start\<close> returns \<open>page_size start\<close> of the items
  \<open>held\<close> for that scope from that index on, and their total number.\<close>

definition catalog_server ::
  "folder list \<Rightarrow> (string \<Rightarrow> string list) \<Rightarrow> (string option \<Rightarrow> movie list) \<Rightarrow> (nat \<Rightarrow> nat)
     \<Rightarrow> request list server" where
  "catalog_server folders types_in held page_size =
     \<lparr>get_system_info = (\<lambda>st. (Response 200 (Inr (Some ''Jellyfin'')), st @ [Req_info])),
      get_media_folders = (\<lambda>st. (Response 200 (Inr (Some folders)), st @ [Req_folders])),
      get_items_probe = (\<lambda>parent st.
         (Response 200 (Inr (Some (map Some (take 1 (types_in parent))))), st @ [Req_probe parent])),
      get_items_page = (\<lambda>parent start st.
         (Response 200 (Inr \<lparr>body_items = Some (take (page_size start) (drop start (held parent))),
                              total_record_count = Some (int (length (held parent)))\<rparr>),
          st @ [Req_page parent start]))\<rparr>"

text \<open>A server whose folder listing always gives the response \<open>r\<close>.\<close>

definition listing_server :: "folder list option http \<Rightarrow> request list server" where
  "listing_server r =
     \<lparr>get_system_info = (\<lambda>st. (Response 200 (Inr None), st @ [Req_info])),
      get_media_folders = (\<lambda>st. (r, st @ [Req_folders])),
      get_items_probe = (\<lambda>parent st. (Response 200 (Inr (Some [Some ''Movie''])), st @ [Req_probe parent])),
      get_items_page = (\<lambda>parent start st.
         (Response 200 (Inr \<lparr>body_items = Some [], total_record_count = Some 0\<rparr>),
          st @ [Req_page parent start]))\<rparr>"

text \<open>A server that answers every page request with status 200, no items, and a total
  of one record.\<close>

definition empty_page_server :: "unit server" where
  "empty_page_server =
     \<lparr>get_system_info = (\<lambda>st. (Response 200 (Inr None), st)),
      get_media_folders = (\<lambda>st. (Response 200 (Inr (Some [])), st)),
      get_items_probe = (\<lambda>parent st. (Response 200 (Inr (Some [])), st)),
      get_items_page = (\<lambda>parent start st.
         (Response 200 (Inr \<lparr>body_items = Some [], total_record_count = Some 1\<rparr>), st))\<rparr>"

text \<open>A server with two movie libraries, of one movie each; without a scope it
  serves both movies. A session for it, and the libraries that discovery finds on it.\<close>

definition example_server :: "request list server" where
  "example_server =
     catalog_server
       [\<lparr>folder_name = Some ''Movies'', folder_id = Some ''1''\<rparr>,
        \<lparr>folder_name = Some ''Kids Movies'', folder_id = Some ''2''\<rparr>]
       (\<lambda>parent. [''Movie''])
       (\<lambda>scope.
          if scope = Some ''1'' then
            [\<lparr>movie_id = Some ''a'', movie_name = Some ''Alien'', run_time_ticks = Some 70000000000\<rparr>]
          else if scope = Some ''2'' then
            [\<lparr>movie_id = Some ''b'', movie_name = Some ''Bambi'', run_time_ticks = None\<rparr>]
          else
            [\<lparr>movie_id = Some ''a'', movie_name = Some ''Alien'', run_time_ticks = Some 70000000000\<rparr>,
             \<lparr>movie_id = Some ''b'', movie_name = Some ''Bambi'', run_time_ticks = None\<rparr>])
       (\<lambda>start. 1000)"

definition example_session :: session where
  "example_session = \<lparr>server_url = ''http://host:8096'', api_key = ''0123456789abcdef''\<rparr>"

definition example_libraries :: "library list" where
  "example_libraries =
     [\<lparr>l_id = ''1'', l_name = ''Movies'', l_type = ''Movie''\<rparr>,
      \<lparr>l_id = ''2'', l_name = ''Kids Movies'', l_type = ''Movie''\<rparr>]"

text \<open>A disk on which every write succeeds, and the content of a file after a
  sequence of writes: the last write to it.\<close>

definition writable :: "string \<Rightarrow> string \<Rightarrow> bool" where
  "writable filename content = True"

definition file_content :: "(string \<times> string) list \<Rightarrow> string \<Rightarrow> string option" where
  "file_content d filename = map_of (rev d) filename"

section \<open>Properties\<close>

subsection \<open>Rendering\<close>

lemma str_nat_digit: "n < 10 \<Longrightarrow> str_nat n = [digit_char n]"
  by (simp add: str_nat.simps)

lemma str_nat_3600: "str_nat 3600 = ''3600''"
  by (simp add: str_nat.simps digit_char_def)

text \<open>Each pass of the per-library loop appends the two lines of the movie if the
  movie has an identifier, and nothing otherwise; so does each pass of the combined
  loop, for the two URL types the generator uses.\<close>

lemma library_entry_eq:
  "library_entry S url_type playlist m =
     (if truthy (movie_id m) then playlist @ entry_lines S url_type m else playlist)"
  by (auto simp: library_entry_def entry_lines_def Let_def split: option.splits)

lemma foldl_library_entry:
  "foldl (library_entry S url_type) playlist movies =
     playlist @ concat (map (entry_lines S url_type) (filter (\<lambda>m. truthy (movie_id m)) movies))"
  by (induction movies arbitrary: playlist) (simp_all add: library_entry_eq)

lemma combined_entries_eq:
  assumes "url_type = ''simple'' \<or> url_type = ''with_key''"
  shows "combined_entries S url_type movies (playlist, url) =
     Inr (playlist @ concat (map (entry_lines S url_type) (filter (\<lambda>m. truthy (movie_id m)) movies)))"
  using assms
  by (induction movies arbitrary: playlist url)
     (auto simp: entry_lines_def Let_def split: option.splits)

text \<open>
  \<^bold>\<open>C9.\<close> The simple stream URL of an item is the server URL, \<open>/Videos/\<close>, the item
  identifier and \<open>/stream.mp4?static=true\<close>, and does not depend on the API key; the URL
  with key is the same path with \<open>?api_key=\<close>, the token as it is, and \<open>&static=true\<close>.
  Item \<open>abc123\<close> on \<open>http://host:8096\<close> gives
  \<open>http://host:8096/Videos/abc123/stream.mp4?static=true\<close>.
\<close>

theorem stream_url_formats:
  "get_stream_url_simple S item_id = server_url S @ ''/Videos/'' @ item_id @ ''/stream.mp4?static=true''
   \<and> get_stream_url_simple (S\<lparr>api_key := token\<rparr>) item_id = get_stream_url_simple S item_id
   \<and> get_stream_url_with_key S item_id =
       server_url S @ ''/Videos/'' @ item_id @ ''/stream.mp4?api_key='' @ api_key S @ ''&static=true''
   \<and> get_stream_url_simple \<lparr>server_url = ''http://host:8096'', api_key = token\<rparr> ''abc123'' =
       ''http://host:8096/Videos/abc123/stream.mp4?static=true''
   \<and> get_stream_url_with_key \<lparr>server_url = ''http://host:8096'', api_key = ''s3cr3t''\<rparr> ''abc123'' =
       ''http://host:8096/Videos/abc123/stream.mp4?api_key=s3cr3t&static=true''"
  by (simp add: get_stream_url_simple_def get_stream_url_with_key_def)

text \<open>
  \<^bold>\<open>C8.\<close> For a movie that is rendered (it has an identifier), both rendering loops
  write the duration as the ticks floor-divided by 10,000,000 when the ticks are present
  and not zero, and as \<open>-1\<close> when they are absent or zero.
\<close>

theorem duration_seconds:
  assumes "truthy (movie_id m)" and "url_type = ''simple'' \<or> url_type = ''with_key''"
  shows "(let seconds = (case run_time_ticks m of
                           None \<Rightarrow> - 1
                         | Some ticks \<Rightarrow> if ticks = 0 then - 1 else ticks div 10000000);
              name = (case movie_name m of None \<Rightarrow> ''Unknown'' | Some n \<Rightarrow> n);
              url = (if url_type = ''simple'' then get_stream_url_simple S (the (movie_id m))
                     else get_stream_url_with_key S (the (movie_id m)));
              entry = ''#EXTINF:'' @ str_int seconds @ '','' @ name @ ''\<newline>'' @ url @ ''\<newline>''
          in library_entry S url_type playlist m = playlist @ entry
             \<and> combined_entries S url_type [m] (playlist, u) = Inr (playlist @ entry))"
  using assms
  by (auto simp: library_entry_def Let_def split: option.splits)

text \<open>At 36,000,000,000 ticks both loops write 3600 seconds.\<close>

theorem duration_seconds_witness:
  "truthy (movie_id \<lparr>movie_id = Some ''abc123'', movie_name = Some ''Film'',
                     run_time_ticks = Some 36000000000\<rparr>)
   \<and> library_entry \<lparr>server_url = ''http://host:8096'', api_key = ''k''\<rparr> ''simple'' []
        \<lparr>movie_id = Some ''abc123'', movie_name = Some ''Film'', run_time_ticks = Some 36000000000\<rparr>
      = ''#EXTINF:3600,Film\<newline>http://host:8096/Videos/abc123/stream.mp4?static=true\<newline>''
   \<and> combined_entries \<lparr>server_url = ''http://host:8096'', api_key = ''k''\<rparr> ''simple''
        [\<lparr>movie_id = Some ''abc123'', movie_name = Some ''Film'', run_time_ticks = Some 36000000000\<rparr>]
        ([], None)
      = Inr ''#EXTINF:3600,Film\<newline>http://host:8096/Videos/abc123/stream.mp4?static=true\<newline>''"
  using duration_seconds [of "\<lparr>movie_id = Some ''abc123'', movie_name = Some ''Film'',
                                run_time_ticks = Some 36000000000\<rparr>" "''simple''"
                             "\<lparr>server_url = ''http://host:8096'', api_key = ''k''\<rparr>" "[]" None]
  by (simp add: Let_def str_int_def str_nat_3600 get_stream_url_simple_def)

text \<open>
  \<^bold>\<open>C10.\<close> A playlist is its header followed by the two lines of each movie that has
  a non-empty identifier, in the order of the list; a movie whose identifier is missing
  or empty contributes nothing, and rendering does not fail. This holds for the
  per-library text and, for the two URL types the generator uses, for the combined text.
\<close>

theorem entries_only_for_movies_with_id:
  "generate_playlist_for_library S movies library_name url_type =
     (if movies = [] then None
      else Some (library_header S (length movies) library_name url_type
                 @ concat (map (entry_lines S url_type)
                             (filter (\<lambda>m. truthy (movie_id m)) movies))))
   \<and> (url_type = ''simple'' \<or> url_type = ''with_key'' \<longrightarrow>
        combined_playlist_text S movies url_type =
          Inr (combined_header S (length movies) url_type
               @ concat (map (entry_lines S url_type)
                           (filter (\<lambda>m. truthy (movie_id m)) movies))))"
  by (simp add: generate_playlist_for_library_def combined_playlist_text_def
        foldl_library_entry combined_entries_eq)

text \<open>Of three movies, one without identifier and one with an empty identifier, only
  the third is rendered.\<close>

theorem entries_only_for_movies_with_id_witness:
  "generate_playlist_for_library \<lparr>server_url = ''http://host:8096'', api_key = ''k''\<rparr>
     [\<lparr>movie_id = None, movie_name = Some ''No id'', run_time_ticks = Some 5\<rparr>,
      \<lparr>movie_id = Some ''abc123'', movie_name = Some ''Film'', run_time_ticks = None\<rparr>,
      \<lparr>movie_id = Some [], movie_name = Some ''Empty id'', run_time_ticks = Some 5\<rparr>]
     ''Films'' ''simple''
   = Some (library_header \<lparr>server_url = ''http://host:8096'', api_key = ''k''\<rparr> 3 ''Films'' ''simple''
           @ ''#EXTINF:-1,Film\<newline>http://host:8096/Videos/abc123/stream.mp4?static=true\<newline>'')
   \<and> combined_playlist_text \<lparr>server_url = ''http://host:8096'', api_key = ''k''\<rparr>
     [\<lparr>movie_id = None, movie_name = Some ''No id'', run_time_ticks = Some 5\<rparr>,
      \<lparr>movie_id = Some ''abc123'', movie_name = Some ''Film'', run_time_ticks = None\<rparr>,
      \<lparr>movie_id = Some [], movie_name = Some ''Empty id'', run_time_ticks = Some 5\<rparr>]
     ''simple''
   = Inr (combined_header \<lparr>server_url = ''http://host:8096'', api_key = ''k''\<rparr> 3 ''simple''
           @ ''#EXTINF:-1,Film\<newline>http://host:8096/Videos/abc123/stream.mp4?static=true\<newline>'')"
  using entries_only_for_movies_with_id
     [of "\<lparr>server_url = ''http://host:8096'', api_key = ''k''\<rparr>"
         "[\<lparr>movie_id = None, movie_name = Some ''No id'', run_time_ticks = Some 5\<rparr>,
      \<lparr>movie_id = Some ''abc123'', movie_name = Some ''Film'', run_time_ticks = None\<rparr>,
      \<lparr>movie_id = Some [], movie_name = Some ''Empty id'', run_time_ticks = Some 5\<rparr>]"
         "''Films''" "''simple''"]
  by (simp add: entry_lines_def str_int_def str_nat_digit digit_char_def get_stream_url_simple_def
        numeral_3_eq_3)

text \<open>
  \<^bold>\<open>C6.\<close> For a non-empty list of movies and either URL type, the text of
  \<open>generate_playlist_for_library\<close> with the library name \<open>All Movies\<close> is the text of
  the inline combined rendering with one more header line, the note on the URL format,
  put before the empty line that ends the header; the rest of the header and all the
  entries are the same.
\<close>

theorem rendering_paths_differ_by_note:
  assumes "movies \<noteq> []" and "url_type = ''simple'' \<or> url_type = ''with_key''"
  shows "combined_playlist_text S movies url_type =
           Inr (combined_header S (length movies) url_type
                @ concat (map (entry_lines S url_type) (filter (\<lambda>m. truthy (movie_id m)) movies)))
         \<and> generate_playlist_for_library S movies ''All Movies'' url_type =
           Some (butlast (combined_header S (length movies) url_type)
                 @ (if url_type = ''simple'' then ''# Note: May work without authentication in VLC\<newline>''
                    else ''# Note: Contains API key in URL\<newline>'')
                 @ ''\<newline>''
                 @ concat (map (entry_lines S url_type) (filter (\<lambda>m. truthy (movie_id m)) movies)))"
  using assms
  by (auto simp: generate_playlist_for_library_def combined_playlist_text_def
        foldl_library_entry combined_entries_eq library_header_def combined_header_def butlast_append)

theorem rendering_paths_differ_by_note_witness:
  "[\<lparr>movie_id = Some ''abc123'', movie_name = Some ''Film'', run_time_ticks = Some 36000000000\<rparr>] \<noteq> []
   \<and> generate_playlist_for_library \<lparr>server_url = ''http://host:8096'', api_key = ''k''\<rparr>
        [\<lparr>movie_id = Some ''abc123'', movie_name = Some ''Film'', run_time_ticks = Some 36000000000\<rparr>]
        ''All Movies'' ''with_key''
      = Some (''#EXTM3U\<newline>''
           @ ''# Jellyfin Playlist - All Movies\<newline>''
           @ ''# Generated from: http://host:8096\<newline>''
           @ ''# Total movies: 1\<newline>''
           @ ''# URL Format: http://host:8096/Videos/ID/stream.mp4?api_key=XXX&static=true\<newline>''
           @ ''# Note: Contains API key in URL\<newline>''
           @ ''\<newline>''
           @ ''#EXTINF:3600,Film\<newline>''
           @ ''http://host:8096/Videos/abc123/stream.mp4?api_key=k&static=true\<newline>'')"
  using rendering_paths_differ_by_note
     [of "[\<lparr>movie_id = Some ''abc123'', movie_name = Some ''Film'', run_time_ticks = Some 36000000000\<rparr>]"
         "''with_key''" "\<lparr>server_url = ''http://host:8096'', api_key = ''k''\<rparr>"]
  by (simp add: combined_header_def entry_lines_def str_int_def str_nat_3600 str_nat_digit
        digit_char_def get_stream_url_with_key_def)

text \<open>The two texts for one movie in simple mode: they differ by the note line.\<close>

theorem rendering_paths_differ:
  "generate_playlist_for_library \<lparr>server_url = ''http://host:8096'', api_key = ''k''\<rparr>
     [\<lparr>movie_id = Some ''abc123'', movie_name = Some ''Film'', run_time_ticks = Some 36000000000\<rparr>]
     ''All Movies'' ''simple''
   = Some (''#EXTM3U\<newline>''
           @ ''# Jellyfin Playlist - All Movies\<newline>''
           @ ''# Generated from: http://host:8096\<newline>''
           @ ''# Total movies: 1\<newline>''
           @ ''# URL Format: http://host:8096/Videos/ID/stream.mp4?static=true\<newline>''
           @ ''# Note: May work without authentication in VLC\<newline>''
           @ ''\<newline>''
           @ ''#EXTINF:3600,Film\<newline>''
           @ ''http://host:8096/Videos/abc123/stream.mp4?static=true\<newline>'')
   \<and> combined_playlist_text \<lparr>server_url = ''http://host:8096'', api_key = ''k''\<rparr>
     [\<lparr>movie_id = Some ''abc123'', movie_name = Some ''Film'', run_time_ticks = Some 36000000000\<rparr>]
     ''simple''
   = Inr (''#EXTM3U\<newline>''
           @ ''# Jellyfin Playlist - All Movies\<newline>''
           @ ''# Generated from: http://host:8096\<newline>''
           @ ''# Total movies: 1\<newline>''
           @ ''# URL Format: http://host:8096/Videos/ID/stream.mp4?static=true\<newline>''
           @ ''\<newline>''
           @ ''#EXTINF:3600,Film\<newline>''
           @ ''http://host:8096/Videos/abc123/stream.mp4?static=true\<newline>'')
   \<and> map_option Inr (generate_playlist_for_library \<lparr>server_url = ''http://host:8096'', api_key = ''k''\<rparr>
     [\<lparr>movie_id = Some ''abc123'', movie_name = Some ''Film'', run_time_ticks = Some 36000000000\<rparr>]
     ''All Movies'' ''simple'')
     \<noteq> Some (combined_playlist_text \<lparr>server_url = ''http://host:8096'', api_key = ''k''\<rparr>
     [\<lparr>movie_id = Some ''abc123'', movie_name = Some ''Film'', run_time_ticks = Some 36000000000\<rparr>]
     ''simple'')"
  by (simp add: generate_playlist_for_library_def combined_playlist_text_def library_header_def
        combined_header_def library_entry_def Let_def str_int_def str_nat_3600 str_nat_digit digit_char_def
        get_stream_url_simple_def)

subsection \<open>Paginated fetch\<close>

text \<open>One pass of the loop on a successful page: the items are appended, the loop ends
  when the accumulated count reaches the reported total, and otherwise goes on from the
  offset advanced by the number of items received.\<close>

lemma fetch_loop_step:
  assumes "get_items_page srv parent_id start_index st =
             (Response 200 (Inr \<lparr>body_items = Some items, total_record_count = Some tot\<rparr>), st')"
  shows "fetch_loop srv parent_id all_items start_index st =
           (if tot \<le> int (length all_items + length items) then Some (all_items @ items, st')
            else fetch_loop srv parent_id (all_items @ items) (start_index + length items) st')"
  by (subst fetch_loop.simps) (simp add: assms Let_def)

lemma catalog_page:
  "get_items_page (catalog_server folders types_in held page_size) parent start st =
     (Response 200 (Inr \<lparr>body_items = Some (take (page_size start) (drop start (held parent))),
                          total_record_count = Some (int (length (held parent)))\<rparr>),
      st @ [Req_page parent start])"
  by (simp add: catalog_server_def)

lemma div_add_self_Suc: "0 < P \<Longrightarrow> (m + P) div P = Suc (m div (P::nat))"
  by (simp add: div_add_self2)

lemma ceil_div_step:
  assumes "0 < P" and "P < n"
  shows "(n + P - 1) div P = Suc ((n - P + P - 1) div P)" and "1 \<le> (n - P + P - 1) div P"
proof -
  from assms have eq: "n + P - 1 = (n - 1) + P" and eq': "n - P + P - 1 = n - 1" by simp_all
  have "((n - 1) + P) div P = Suc ((n - 1) div P)" using assms(1) by (simp add: div_add_self2)
  then show "(n + P - 1) div P = Suc ((n - P + P - 1) div P)"
    by (simp only: eq eq')
  from assms have "P \<le> n - 1" by simp
  then have "P div P \<le> (n - 1) div P" by (rule div_le_mono)
  with assms(1) have "1 \<le> (n - 1) div P" by simp
  then show "1 \<le> (n - P + P - 1) div P" by (simp only: eq')
qed

lemma ceil_div_last:
  assumes "0 < P" and "n \<le> P"
  shows "max 1 ((n + P - 1) div P) = (1::nat)"
proof -
  from assms have "n + P - 1 < 2 * P" by simp
  then have "(n + P - 1) div P < 2" using assms(1)
    by (simp add: less_mult_imp_div_less)
  then show ?thesis by simp
qed

lemma fetch_loop_full_pages:
  assumes P: "0 < P"
  shows "start \<le> length (held parent) \<Longrightarrow>
     fetch_loop (catalog_server folders types_in held (\<lambda>s. P)) parent
         (take start (held parent)) start log =
       Some (held parent,
             log @ map (\<lambda>k. Req_page parent (start + k * P))
                     [0..<max 1 ((length (held parent) - start + P - 1) div P)])"
proof (induction "length (held parent) - start" arbitrary: start log rule: less_induct)
  case less
  let ?L = "held parent"
  let ?N = "length ?L"
  let ?srv = "catalog_server folders types_in held (\<lambda>s. P)"
  have acc: "take start ?L @ take P (drop start ?L) = take (start + P) ?L"
    by (simp add: take_add)
  have step: "fetch_loop ?srv parent (take start ?L) start log =
      (if ?N \<le> start + P then Some (take (start + P) ?L, log @ [Req_page parent start])
       else fetch_loop ?srv parent (take (start + P) ?L) (start + length (take P (drop start ?L)))
              (log @ [Req_page parent start]))"
    using less.prems
    by (subst fetch_loop_step [OF catalog_page]) (auto simp: acc min_def)
  show ?case
  proof (cases "?N \<le> start + P")
    case True
    then have "?N - start \<le> P" by simp
    from ceil_div_last [OF P this] True show ?thesis
      by (simp add: step)
  next
    case False
    then have lt: "P < ?N - start" by simp
    have len: "length (take P (drop start ?L)) = P" using False by simp
    have sub: "?N - (start + P) = ?N - start - P" by simp
    from False have "?N - (start + P) < ?N - start" using P by simp
    moreover from False have "start + P \<le> ?N" by simp
    ultimately have IH: "fetch_loop ?srv parent (take (start + P) ?L) (start + P)
        (log @ [Req_page parent start]) =
       Some (?L, (log @ [Req_page parent start])
                  @ map (\<lambda>k. Req_page parent (start + P + k * P))
                      [0..<max 1 ((?N - (start + P) + P - 1) div P)])"
      by (rule less.hyps)
    from ceil_div_step [OF P lt]
    have c: "(?N - start + P - 1) div P = Suc ((?N - start - P + P - 1) div P)"
      and c1: "1 \<le> (?N - start - P + P - 1) div P" by simp_all
    have "map (\<lambda>k. Req_page parent (start + k * P)) [0..<max 1 ((?N - start + P - 1) div P)] =
          Req_page parent start
          # map (\<lambda>k. Req_page parent (start + P + k * P)) [0..<max 1 ((?N - (start + P) + P - 1) div P)]"
      unfolding c sub using c1
      by (simp add: upt_conv_Cons map_Suc_upt [symmetric] del: upt_Suc)
    with IH False len show ?thesis
      by (simp add: step)
  qed
qed


lemma ceil_div_mono_step:
  assumes "0 < P" and "k \<le> P" and "k < n"
  shows "(n + P - 1) div P \<le> Suc ((n - k + P - 1) div P)"
proof -
  from assms have "n + P - 1 \<le> (n - k + P - 1) + P" by simp
  then have "(n + P - 1) div P \<le> ((n - k + P - 1) + P) div P" by (rule div_le_mono)
  also have "\<dots> = Suc ((n - k + P - 1) div P)" using assms(1) by (rule div_add_self_Suc)
  finally show ?thesis .
qed

lemma fetch_loop_short_pages:
  assumes progress: "\<And>s. s < length (held parent) \<Longrightarrow> 0 < page_size s \<and> page_size s \<le> P"
    and P: "0 < P"
  shows "start \<le> length (held parent) \<Longrightarrow>
     \<exists>log'. fetch_loop (catalog_server folders types_in held page_size) parent
               (take start (held parent)) start log = Some (held parent, log @ log')
            \<and> max 1 ((length (held parent) - start + P - 1) div P) \<le> length log'"
proof (induction "length (held parent) - start" arbitrary: start log rule: less_induct)
  case less
  let ?L = "held parent"
  let ?N = "length ?L"
  let ?k = "page_size start"
  let ?srv = "catalog_server folders types_in held page_size"
  have acc: "take start ?L @ take ?k (drop start ?L) = take (start + ?k) ?L"
    by (simp add: take_add)
  have step: "fetch_loop ?srv parent (take start ?L) start log =
      (if ?N \<le> start + ?k then Some (take (start + ?k) ?L, log @ [Req_page parent start])
       else fetch_loop ?srv parent (take (start + ?k) ?L) (start + length (take ?k (drop start ?L)))
              (log @ [Req_page parent start]))"
    using less.prems
    by (subst fetch_loop_step [OF catalog_page]) (auto simp: acc min_def)
  show ?case
  proof (cases "?N \<le> start + ?k")
    case True
    have "?N - start \<le> P"
    proof (cases "start < ?N")
      case True
      with progress have "?k \<le> P" by simp
      with \<open>?N \<le> start + ?k\<close> show ?thesis by simp
    next
      case False
      then show ?thesis by simp
    qed
    from ceil_div_last [OF P this] True show ?thesis
      by (simp add: step)
  next
    case False
    then have lt: "start < ?N" by simp
    with progress have k: "0 < ?k" "?k \<le> P" by simp_all
    have len: "length (take ?k (drop start ?L)) = ?k" using False by simp
    from False k have "?N - (start + ?k) < ?N - start" by simp
    moreover from False have "start + ?k \<le> ?N" by simp
    ultimately have "\<exists>log'. fetch_loop ?srv parent (take (start + ?k) ?L) (start + ?k)
        (log @ [Req_page parent start]) = Some (?L, (log @ [Req_page parent start]) @ log')
        \<and> max 1 ((?N - (start + ?k) + P - 1) div P) \<le> length log'"
      by (rule less.hyps)
    then obtain log' where
      run: "fetch_loop ?srv parent (take (start + ?k) ?L) (start + ?k)
              (log @ [Req_page parent start]) = Some (?L, (log @ [Req_page parent start]) @ log')"
      and cnt: "max 1 ((?N - (start + ?k) + P - 1) div P) \<le> length log'"
      by blast
    from False have "?k < ?N - start" by simp
    from ceil_div_mono_step [OF P k(2) this]
    have "(?N - start + P - 1) div P \<le> Suc ((?N - start - ?k + P - 1) div P)" .
    with cnt have "max 1 ((?N - start + P - 1) div P) \<le> length (Req_page parent start # log')"
      by simp
    moreover from run False len
    have "fetch_loop ?srv parent (take start ?L) start log =
            Some (?L, log @ Req_page parent start # log')"
      by (simp add: step)
    ultimately show ?thesis by blast
  qed
qed

lemma library_filter_id:
  "library_filter srv None library_id st = (if truthy library_id then library_id else None, st)"
  by (simp add: library_filter_def)

text \<open>
  \<^bold>\<open>C1.\<close> On a successful page the loop appends the items, returns as soon as the
  accumulated count is at least the reported total, and otherwise continues with the
  offset advanced by the number of items received. Against a server that holds a list
  of \<open>N\<close> items for the scope the library filter selects, and serves full pages of
  1000, the fetch starts at offset 0, requests the offsets 0, 1000, 2000, ...,
  \<open>max 1 \<lceil>N / 1000\<rceil>\<close> requests in all, and returns exactly the held list. Against a
  server that serves shorter pages, of at least one and at most 1000 items, it still
  returns exactly the held list, after at least that many requests.
\<close>

theorem paginated_fetch:
  "(get_items_page srv parent_id start_index st =
      (Response 200 (Inr \<lparr>body_items = Some items, total_record_count = Some tot\<rparr>), st')
    \<longrightarrow> fetch_loop srv parent_id all_items start_index st =
          (if tot \<le> int (length all_items + length items) then Some (all_items @ items, st')
           else fetch_loop srv parent_id (all_items @ items) (start_index + length items) st'))
   \<and> (library_filter (catalog_server folders types_in held (\<lambda>s. 1000)) library_name library_id log
        = (scope, log1)
      \<longrightarrow> get_movies_from_library (catalog_server folders types_in held (\<lambda>s. 1000))
            library_name library_id log =
           Some (held scope,
                 log1 @ map (\<lambda>k. Req_page scope (k * 1000))
                          [0..<max 1 ((length (held scope) + 999) div 1000)]))
   \<and> (library_filter (catalog_server folders types_in held page_size) library_name library_id log
        = (scope, log1)
      \<and> (\<forall>s < length (held scope). 0 < page_size s \<and> page_size s \<le> 1000)
      \<longrightarrow> (\<exists>log2. get_movies_from_library (catalog_server folders types_in held page_size)
                    library_name library_id log = Some (held scope, log1 @ log2)
                 \<and> max 1 ((length (held scope) + 999) div 1000) \<le> length log2))"
proof (intro conjI impI)
  assume "get_items_page srv parent_id start_index st =
      (Response 200 (Inr \<lparr>body_items = Some items, total_record_count = Some tot\<rparr>), st')"
  then show "fetch_loop srv parent_id all_items start_index st =
          (if tot \<le> int (length all_items + length items) then Some (all_items @ items, st')
           else fetch_loop srv parent_id (all_items @ items) (start_index + length items) st')"
    by (rule fetch_loop_step)
next
  assume "library_filter (catalog_server folders types_in held (\<lambda>s. 1000)) library_name library_id log
            = (scope, log1)"
  then show "get_movies_from_library (catalog_server folders types_in held (\<lambda>s. 1000))
            library_name library_id log =
           Some (held scope,
                 log1 @ map (\<lambda>k. Req_page scope (k * 1000))
                          [0..<max 1 ((length (held scope) + 999) div 1000)])"
    using fetch_loop_full_pages [of 1000 0 held scope folders types_in log1]
    by (simp add: get_movies_from_library_def add.commute)
next
  assume "library_filter (catalog_server folders types_in held page_size) library_name library_id log
            = (scope, log1)
          \<and> (\<forall>s < length (held scope). 0 < page_size s \<and> page_size s \<le> 1000)"
  then show "\<exists>log2. get_movies_from_library (catalog_server folders types_in held page_size)
                    library_name library_id log = Some (held scope, log1 @ log2)
                 \<and> max 1 ((length (held scope) + 999) div 1000) \<le> length log2"
    using fetch_loop_short_pages [of held scope page_size 1000 0 folders types_in log1]
    by (simp add: get_movies_from_library_def add.commute)
qed

text \<open>A library of 2500 movies, selected by its name: three requests with full pages;
  selected by its identifier: at least three with pages of 700.\<close>

theorem paginated_fetch_witness:
  "get_items_page
     (catalog_server [\<lparr>folder_name = Some ''Movies'', folder_id = Some ''lib1''\<rparr>] (\<lambda>parent. [])
          (\<lambda>scope. if scope = Some ''lib1''
                   then replicate 2500 \<lparr>movie_id = Some ''m'', movie_name = None, run_time_ticks = None\<rparr>
                   else [])
          (\<lambda>s. 1000)) (Some ''lib1'') 0 []
     = (Response 200 (Inr \<lparr>body_items = Some (replicate 1000 \<lparr>movie_id = Some ''m'', movie_name = None, run_time_ticks = None\<rparr>),
                          total_record_count = Some 2500\<rparr>), [Req_page (Some ''lib1'') 0])
   \<and> fetch_loop
     (catalog_server [\<lparr>folder_name = Some ''Movies'', folder_id = Some ''lib1''\<rparr>] (\<lambda>parent. [])
          (\<lambda>scope. if scope = Some ''lib1''
                   then replicate 2500 \<lparr>movie_id = Some ''m'', movie_name = None, run_time_ticks = None\<rparr>
                   else [])
          (\<lambda>s. 1000)) (Some ''lib1'') [] 0 []
     = fetch_loop
     (catalog_server [\<lparr>folder_name = Some ''Movies'', folder_id = Some ''lib1''\<rparr>] (\<lambda>parent. [])
          (\<lambda>scope. if scope = Some ''lib1''
                   then replicate 2500 \<lparr>movie_id = Some ''m'', movie_name = None, run_time_ticks = None\<rparr>
                   else [])
          (\<lambda>s. 1000)) (Some ''lib1'')
         (replicate 1000 \<lparr>movie_id = Some ''m'', movie_name = None, run_time_ticks = None\<rparr>) 1000 [Req_page (Some ''lib1'') 0]
   \<and> library_filter
     (catalog_server [\<lparr>folder_name = Some ''Movies'', folder_id = Some ''lib1''\<rparr>] (\<lambda>parent. [])
          (\<lambda>scope. if scope = Some ''lib1''
                   then replicate 2500 \<lparr>movie_id = Some ''m'', movie_name = None, run_time_ticks = None\<rparr>
                   else [])
          (\<lambda>s. 1000)) (Some ''MOVIES'') None [] = (Some ''lib1'', [Req_folders])
   \<and> get_movies_from_library
     (catalog_server [\<lparr>folder_name = Some ''Movies'', folder_id = Some ''lib1''\<rparr>] (\<lambda>parent. [])
          (\<lambda>scope. if scope = Some ''lib1''
                   then replicate 2500 \<lparr>movie_id = Some ''m'', movie_name = None, run_time_ticks = None\<rparr>
                   else [])
          (\<lambda>s. 1000)) (Some ''MOVIES'') None []
     = Some (replicate 2500 \<lparr>movie_id = Some ''m'', movie_name = None, run_time_ticks = None\<rparr>,
             [Req_folders, Req_page (Some ''lib1'') 0, Req_page (Some ''lib1'') 1000,
              Req_page (Some ''lib1'') 2000])
   \<and> library_filter
     (catalog_server [\<lparr>folder_name = Some ''Movies'', folder_id = Some ''lib1''\<rparr>] (\<lambda>parent. [])
          (\<lambda>scope. if scope = Some ''lib1''
                   then replicate 2500 \<lparr>movie_id = Some ''m'', movie_name = None, run_time_ticks = None\<rparr>
                   else [])
          (\<lambda>s. 700)) None (Some ''lib1'') [] = (Some ''lib1'', [])
   \<and> (\<exists>log2. get_movies_from_library
     (catalog_server [\<lparr>folder_name = Some ''Movies'', folder_id = Some ''lib1''\<rparr>] (\<lambda>parent. [])
          (\<lambda>scope. if scope = Some ''lib1''
                   then replicate 2500 \<lparr>movie_id = Some ''m'', movie_name = None, run_time_ticks = None\<rparr>
                   else [])
          (\<lambda>s. 700)) None (Some ''lib1'') []
       = Some (replicate 2500 \<lparr>movie_id = Some ''m'', movie_name = None, run_time_ticks = None\<rparr>, log2)
       \<and> 3 \<le> length log2)"
proof -
  note T = paginated_fetch
    [where srv = "(catalog_server [\<lparr>folder_name = Some ''Movies'', folder_id = Some ''lib1''\<rparr>] (\<lambda>parent. [])
          (\<lambda>scope. if scope = Some ''lib1''
                   then replicate 2500 \<lparr>movie_id = Some ''m'', movie_name = None, run_time_ticks = None\<rparr>
                   else [])
          (\<lambda>s. 1000))"
       and parent_id = "Some ''lib1''" and start_index = 0 and st = "[]"
       and items = "replicate 1000 \<lparr>movie_id = Some ''m'', movie_name = None, run_time_ticks = None\<rparr>"
       and tot = 2500 and st' = "[Req_page (Some ''lib1'') 0]" and all_items = "[]"
       and folders = "[\<lparr>folder_name = Some ''Movies'', folder_id = Some ''lib1''\<rparr>]"
       and types_in = "\<lambda>parent. []"
       and held = "\<lambda>scope. if scope = Some ''lib1''
                   then replicate 2500 \<lparr>movie_id = Some ''m'', movie_name = None, run_time_ticks = None\<rparr>
                   else []"]
  have page: "get_items_page
     (catalog_server [\<lparr>folder_name = Some ''Movies'', folder_id = Some ''lib1''\<rparr>] (\<lambda>parent. [])
          (\<lambda>scope. if scope = Some ''lib1''
                   then replicate 2500 \<lparr>movie_id = Some ''m'', movie_name = None, run_time_ticks = None\<rparr>
                   else [])
          (\<lambda>s. 1000)) (Some ''lib1'') 0 []
     = (Response 200 (Inr \<lparr>body_items = Some (replicate 1000 \<lparr>movie_id = Some ''m'', movie_name = None, run_time_ticks = None\<rparr>),
                          total_record_count = Some 2500\<rparr>), [Req_page (Some ''lib1'') 0])"
    by (simp add: catalog_page)
  have by_name: "library_filter
     (catalog_server [\<lparr>folder_name = Some ''Movies'', folder_id = Some ''lib1''\<rparr>] (\<lambda>parent. [])
          (\<lambda>scope. if scope = Some ''lib1''
                   then replicate 2500 \<lparr>movie_id = Some ''m'', movie_name = None, run_time_ticks = None\<rparr>
                   else [])
          (\<lambda>s. 1000)) (Some ''MOVIES'') None [] = (Some ''lib1'', [Req_folders])"
    by code_simp
  have by_id: "library_filter
     (catalog_server [\<lparr>folder_name = Some ''Movies'', folder_id = Some ''lib1''\<rparr>] (\<lambda>parent. [])
          (\<lambda>scope. if scope = Some ''lib1''
                   then replicate 2500 \<lparr>movie_id = Some ''m'', movie_name = None, run_time_ticks = None\<rparr>
                   else [])
          (\<lambda>s. 700)) None (Some ''lib1'') [] = (Some ''lib1'', [])"
    by (simp add: library_filter_id)
  from T [where library_name = "Some ''MOVIES''" and library_id = None and log = "[]"
            and scope = "Some ''lib1''" and ?log1.0 = "[Req_folders]" and page_size = "\<lambda>s. 700"]
       page
  have step: "fetch_loop
     (catalog_server [\<lparr>folder_name = Some ''Movies'', folder_id = Some ''lib1''\<rparr>] (\<lambda>parent. [])
          (\<lambda>scope. if scope = Some ''lib1''
                   then replicate 2500 \<lparr>movie_id = Some ''m'', movie_name = None, run_time_ticks = None\<rparr>
                   else [])
          (\<lambda>s. 1000)) (Some ''lib1'') [] 0 []
     = fetch_loop
     (catalog_server [\<lparr>folder_name = Some ''Movies'', folder_id = Some ''lib1''\<rparr>] (\<lambda>parent. [])
          (\<lambda>scope. if scope = Some ''lib1''
                   then replicate 2500 \<lparr>movie_id = Some ''m'', movie_name = None, run_time_ticks = None\<rparr>
                   else [])
          (\<lambda>s. 1000)) (Some ''lib1'')
         (replicate 1000 \<lparr>movie_id = Some ''m'', movie_name = None, run_time_ticks = None\<rparr>) 1000 [Req_page (Some ''lib1'') 0]"
    by simp
  from T [where library_name = "Some ''MOVIES''" and library_id = None and log = "[]"
            and scope = "Some ''lib1''" and ?log1.0 = "[Req_folders]" and page_size = "\<lambda>s. 700"]
       by_name
  have full: "get_movies_from_library
     (catalog_server [\<lparr>folder_name = Some ''Movies'', folder_id = Some ''lib1''\<rparr>] (\<lambda>parent. [])
          (\<lambda>scope. if scope = Some ''lib1''
                   then replicate 2500 \<lparr>movie_id = Some ''m'', movie_name = None, run_time_ticks = None\<rparr>
                   else [])
          (\<lambda>s. 1000)) (Some ''MOVIES'') None []
     = Some (replicate 2500 \<lparr>movie_id = Some ''m'', movie_name = None, run_time_ticks = None\<rparr>,
             [Req_folders, Req_page (Some ''lib1'') 0, Req_page (Some ''lib1'') 1000,
              Req_page (Some ''lib1'') 2000])"
    by (simp add: numeral_3_eq_3)
  from T [where library_name = None and library_id = "Some ''lib1''" and log = "[]"
            and scope = "Some ''lib1''" and ?log1.0 = "[]" and page_size = "\<lambda>s. 700"]
       by_id
  have short: "\<exists>log2. get_movies_from_library
     (catalog_server [\<lparr>folder_name = Some ''Movies'', folder_id = Some ''lib1''\<rparr>] (\<lambda>parent. [])
          (\<lambda>scope. if scope = Some ''lib1''
                   then replicate 2500 \<lparr>movie_id = Some ''m'', movie_name = None, run_time_ticks = None\<rparr>
                   else [])
          (\<lambda>s. 700)) None (Some ''lib1'') []
       = Some (replicate 2500 \<lparr>movie_id = Some ''m'', movie_name = None, run_time_ticks = None\<rparr>, log2)
       \<and> 3 \<le> length log2"
    by auto
  from page step by_name full by_id short show ?thesis by simp
qed

text \<open>An empty library costs one request, not \<open>\<lceil>0 / 1000\<rceil> = 0\<close>.\<close>

theorem fetch_empty_library_one_call:
  "get_movies_from_library (catalog_server [] (\<lambda>parent. []) (\<lambda>scope. []) (\<lambda>s. 1000)) None None []
     = Some ([], [Req_page None 0])
   \<and> length [Req_page None 0] \<noteq> (length ([] :: movie list) + 999) div 1000"
  using fetch_loop_full_pages [of 1000 0 "\<lambda>scope. []" None "[]" "\<lambda>parent. []" "[]"]
  by (simp add: get_movies_from_library_def library_filter_id)

text \<open>A server that keeps answering with an empty page and a total that is not yet
  reached: the offset does not move and the loop never returns.\<close>

lemma empty_pages_never_return:
  assumes "fetch_loop srv parent_id all_items start_index st = Some y"
  shows "get_items_page srv =
           (\<lambda>parent start st. (Response 200 (Inr \<lparr>body_items = Some [], total_record_count = Some 1\<rparr>), st))
         \<longrightarrow> all_items \<noteq> []"
proof (rule fetch_loop.raw_induct
        [OF _ assms, where P = "\<lambda>srv parent_id all_items start_index st y.
           get_items_page srv =
             (\<lambda>parent start st. (Response 200 (Inr \<lparr>body_items = Some [], total_record_count = Some 1\<rparr>), st))
           \<longrightarrow> all_items \<noteq> []"], goal_cases)
  case (1 loop srv parent_id all_items start_index st y)
  show ?case
  proof
    assume srv: "get_items_page srv =
           (\<lambda>parent start st. (Response 200 (Inr \<lparr>body_items = Some [], total_record_count = Some 1\<rparr>), st))"
    show "all_items \<noteq> []"
    proof
      assume "all_items = []"
      with 1(2) srv have "loop srv parent_id [] start_index st = Some y"
        by simp
      from 1(1) [OF this] srv show False by simp
    qed
  qed
qed

text \<open>
  \<^bold>\<open>C2.\<close> The fetch does not return against a server whose pages are successful,
  empty, and report a total of one record: the loop asks for offset 0 forever.
\<close>

theorem fetch_never_returns_on_empty_pages:
  "get_movies_from_library empty_page_server None None () = None"
proof (cases "fetch_loop empty_page_server None [] 0 ()")
  case None
  then show ?thesis
    by (simp add: get_movies_from_library_def library_filter_def)
next
  case (Some y)
  from empty_pages_never_return [OF this] show ?thesis
    by (simp add: empty_page_server_def)
qed

subsection \<open>Library discovery\<close>

text \<open>The second test of line 59 adds nothing to the first: a name that contains
  \<open>movies\<close> contains \<open>movie\<close>.\<close>

lemma movies_contains_movie: "sublist ''movies'' s \<Longrightarrow> sublist ''movie'' s"
proof -
  assume "sublist ''movies'' s"
  then obtain ps ss where "s = ps @ ''movies'' @ ss" by (auto simp: sublist_def)
  then have "s = ps @ ''movie'' @ (''s'' @ ss)" by simp
  then show ?thesis unfolding sublist_def by blast
qed

lemma no_movie_no_movies: "\<not> sublist ''movie'' s \<Longrightarrow> \<not> sublist ''movies'' s"
  using movies_contains_movie by blast

lemma libraries_loop_unnamed:
  assumes "(case folder_name item of None \<Rightarrow> [] | Some n \<Rightarrow> n) = []"
  shows "libraries_loop srv (item # items) libraries st = libraries_loop srv items libraries st"
  using assms by (simp add: Let_def)

lemma libraries_loop_movie:
  assumes "(case folder_name item of None \<Rightarrow> [] | Some n \<Rightarrow> n) = library_name"
    and "(case folder_id item of None \<Rightarrow> [] | Some i \<Rightarrow> i) = library_id"
    and "library_name \<noteq> []" and "sublist ''movie'' (lower library_name)"
  shows "libraries_loop srv (item # items) libraries st =
           libraries_loop srv items
             (libraries @ [\<lparr>l_id = library_id, l_name = library_name, l_type = ''Movie''\<rparr>]) st"
  using assms by (simp add: Let_def)

lemma get_library_types_probe:
  assumes "get_items_probe srv library_id st = (r, st')"
  shows "\<exists>library_types. get_library_types srv library_id st = (library_types, st')
           \<and> (''Movie'' \<in> set library_types
                \<longleftrightarrow> (\<exists>rest. r = Response 200 (Inr (Some (Some ''Movie'' # rest)))))"
  using assms
  by (cases r) (auto simp: get_library_types_def split: sum.splits option.splits list.splits)

lemma libraries_loop_probe:
  assumes "(case folder_name item of None \<Rightarrow> [] | Some n \<Rightarrow> n) = library_name"
    and "(case folder_id item of None \<Rightarrow> [] | Some i \<Rightarrow> i) = library_id"
    and "library_name \<noteq> []" and "\<not> sublist ''movie'' (lower library_name)"
  shows "libraries_loop srv (item # items) libraries st =
           (case get_items_probe srv library_id st of
              (r, st') \<Rightarrow>
                if \<exists>rest. r = Response 200 (Inr (Some (Some ''Movie'' # rest)))
                then libraries_loop srv items
                       (libraries @ [\<lparr>l_id = library_id, l_name = library_name, l_type = ''Mixed''\<rparr>]) st'
                else libraries_loop srv items libraries st')"
proof (cases "get_items_probe srv library_id st")
  case (Pair r st')
  from get_library_types_probe [OF Pair] obtain library_types where
    types: "get_library_types srv library_id st = (library_types, st')"
    and movie: "''Movie'' \<in> set library_types
                \<longleftrightarrow> (\<exists>rest. r = Response 200 (Inr (Some (Some ''Movie'' # rest))))"
    by blast
  have "libraries_loop srv (item # items) libraries st =
          (if ''Movie'' \<in> set library_types
           then libraries_loop srv items
                  (libraries @ [\<lparr>l_id = library_id, l_name = library_name, l_type = ''Mixed''\<rparr>]) st'
           else libraries_loop srv items libraries st')"
    using assms no_movie_no_movies [OF assms(4)] types by (simp add: Let_def)
  with movie Pair show ?thesis by simp
qed

text \<open>
  \<^bold>\<open>C5.\<close> Discovery classifies each folder of the listing in turn. A folder whose
  name is missing or empty is left out, and no probe is sent for it. A folder whose name
  contains \<open>movie\<close>, whatever the case of its letters, is included with the type
  \<open>Movie\<close>, without a probe. For any other folder one probe is sent, scoped to the
  folder, and the folder is included with the type \<open>Mixed\<close> exactly when the probe
  answers with status 200 and a first item of type \<open>Movie\<close>. For a server with the
  libraries \<open>Movies\<close> (probe type \<open>Movie\<close>) and \<open>TV Shows\<close> (probe type
  \<open>Episode\<close>) discovery returns \<open>Movies\<close> only.
\<close>

theorem discovery_classification:
  "(let library_name = (case folder_name item of None \<Rightarrow> [] | Some n \<Rightarrow> n);
        library_id = (case folder_id item of None \<Rightarrow> [] | Some i \<Rightarrow> i)
    in (library_name = [] \<longrightarrow>
          libraries_loop srv (item # items) libraries st = libraries_loop srv items libraries st)
     \<and> (library_name \<noteq> [] \<and> sublist ''movie'' (lower library_name) \<longrightarrow>
          libraries_loop srv (item # items) libraries st =
            libraries_loop srv items
              (libraries @ [\<lparr>l_id = library_id, l_name = library_name, l_type = ''Movie''\<rparr>]) st)
     \<and> (library_name \<noteq> [] \<and> \<not> sublist ''movie'' (lower library_name) \<longrightarrow>
          libraries_loop srv (item # items) libraries st =
            (case get_items_probe srv library_id st of
               (r, st') \<Rightarrow>
                 if \<exists>rest. r = Response 200 (Inr (Some (Some ''Movie'' # rest)))
                 then libraries_loop srv items
                        (libraries @ [\<lparr>l_id = library_id, l_name = library_name, l_type = ''Mixed''\<rparr>]) st'
                 else libraries_loop srv items libraries st')))
   \<and> get_libraries
        (catalog_server
           [\<lparr>folder_name = Some ''Movies'', folder_id = Some ''1''\<rparr>,
            \<lparr>folder_name = Some ''TV Shows'', folder_id = Some ''2''\<rparr>]
           (\<lambda>parent. if parent = ''1'' then [''Movie''] else [''Episode'']) held page_size) []
      = (([\<lparr>l_id = ''1'', l_name = ''Movies'', l_type = ''Movie''\<rparr>], []),
         [Req_folders, Req_probe ''2''])"
proof -
  have ex: "get_libraries
        (catalog_server
           [\<lparr>folder_name = Some ''Movies'', folder_id = Some ''1''\<rparr>,
            \<lparr>folder_name = Some ''TV Shows'', folder_id = Some ''2''\<rparr>]
           (\<lambda>parent. if parent = ''1'' then [''Movie''] else [''Episode'']) held page_size) []
      = (([\<lparr>l_id = ''1'', l_name = ''Movies'', l_type = ''Movie''\<rparr>], []),
         [Req_folders, Req_probe ''2''])"
    by code_simp
  show ?thesis
    unfolding Let_def
    by (intro conjI impI ex libraries_loop_unnamed libraries_loop_movie libraries_loop_probe)
       simp_all
qed

text \<open>One folder of each kind: without a name, with \<open>movie\<close> in its name, probed as
  \<open>Episode\<close>, probed as \<open>Movie\<close>.\<close>

theorem discovery_classification_witness:
  "libraries_loop (catalog_server [] (\<lambda>parent. if parent = ''3'' then [''Movie'', ''Episode''] else [''Episode''])
        (\<lambda>scope. []) (\<lambda>start. 1000))
     [\<lparr>folder_name = None, folder_id = Some ''9''\<rparr>] [] [] = ([], [])
   \<and> libraries_loop (catalog_server [] (\<lambda>parent. if parent = ''3'' then [''Movie'', ''Episode''] else [''Episode''])
        (\<lambda>scope. []) (\<lambda>start. 1000))
     [\<lparr>folder_name = Some ''Kids MOVIES'', folder_id = Some ''1''\<rparr>] [] []
     = ([\<lparr>l_id = ''1'', l_name = ''Kids MOVIES'', l_type = ''Movie''\<rparr>], [])
   \<and> libraries_loop (catalog_server [] (\<lambda>parent. if parent = ''3'' then [''Movie'', ''Episode''] else [''Episode''])
        (\<lambda>scope. []) (\<lambda>start. 1000))
     [\<lparr>folder_name = Some ''TV Shows'', folder_id = Some ''2''\<rparr>] [] [] = ([], [Req_probe ''2''])
   \<and> libraries_loop (catalog_server [] (\<lambda>parent. if parent = ''3'' then [''Movie'', ''Episode''] else [''Episode''])
        (\<lambda>scope. []) (\<lambda>start. 1000))
     [\<lparr>folder_name = Some ''Videos'', folder_id = Some ''3''\<rparr>] [] []
     = ([\<lparr>l_id = ''3'', l_name = ''Videos'', l_type = ''Mixed''\<rparr>], [Req_probe ''3''])"
proof -
  let ?W = "(catalog_server [] (\<lambda>parent. if parent = ''3'' then [''Movie'', ''Episode''] else [''Episode''])
        (\<lambda>scope. []) (\<lambda>start. 1000))"
  have movie: "sublist ''movie'' (lower ''Kids MOVIES'')"
    and tv: "\<not> sublist ''movie'' (lower ''TV Shows'')"
    and videos: "\<not> sublist ''movie'' (lower ''Videos'')"
    by code_simp+
  have probe2: "get_items_probe ?W ''2'' [] = (Response 200 (Inr (Some [Some ''Episode''])), [Req_probe ''2''])"
    and probe3: "get_items_probe ?W ''3'' [] = (Response 200 (Inr (Some [Some ''Movie''])), [Req_probe ''3''])"
    by (simp_all add: catalog_server_def)
  have "libraries_loop ?W [\<lparr>folder_name = None, folder_id = Some ''9''\<rparr>] [] [] = ([], [])"
    using discovery_classification
      [where srv = ?W and item = "\<lparr>folder_name = None, folder_id = Some ''9''\<rparr>"
         and items = "[]" and libraries = "[]" and st = "[]"]
    by (simp add: Let_def)
  moreover
  have "libraries_loop ?W [\<lparr>folder_name = Some ''Kids MOVIES'', folder_id = Some ''1''\<rparr>] [] []
     = ([\<lparr>l_id = ''1'', l_name = ''Kids MOVIES'', l_type = ''Movie''\<rparr>], [])"
    using discovery_classification
      [where srv = ?W and item = "\<lparr>folder_name = Some ''Kids MOVIES'', folder_id = Some ''1''\<rparr>"
         and items = "[]" and libraries = "[]" and st = "[]"] movie
    by (simp add: Let_def)
  moreover
  have "libraries_loop ?W [\<lparr>folder_name = Some ''TV Shows'', folder_id = Some ''2''\<rparr>] [] []
     = ([], [Req_probe ''2''])"
    using discovery_classification
      [where srv = ?W and item = "\<lparr>folder_name = Some ''TV Shows'', folder_id = Some ''2''\<rparr>"
         and items = "[]" and libraries = "[]" and st = "[]"] tv probe2
    by (simp add: Let_def)
  moreover
  have "libraries_loop ?W [\<lparr>folder_name = Some ''Videos'', folder_id = Some ''3''\<rparr>] [] []
     = ([\<lparr>l_id = ''3'', l_name = ''Videos'', l_type = ''Mixed''\<rparr>], [Req_probe ''3''])"
    using discovery_classification
      [where srv = ?W and item = "\<lparr>folder_name = Some ''Videos'', folder_id = Some ''3''\<rparr>"
         and items = "[]" and libraries = "[]" and st = "[]"] videos probe3
    by (simp add: Let_def)
  ultimately show ?thesis by simp
qed

text \<open>A folder without a name is left out although a probe of it would have answered
  \<open>Movie\<close>: the log shows the listing request only.\<close>

theorem unnamed_folder_never_probed:
  "get_libraries
     (listing_server (Response 200 (Inr (Some [\<lparr>folder_name = None, folder_id = Some ''9''\<rparr>])))) []
     = (([], []), [Req_folders])
   \<and> get_items_probe
     (listing_server (Response 200 (Inr (Some [\<lparr>folder_name = None, folder_id = Some ''9''\<rparr>]))))
     ''9'' [Req_folders]
     = (Response 200 (Inr (Some [Some ''Movie''])), [Req_folders, Req_probe ''9''])"
  by (simp add: get_libraries_def listing_server_def Let_def)

text \<open>
  \<^bold>\<open>C7.\<close> When the listing request raises, or its body cannot be decoded,
  \<open>get_libraries\<close> returns the empty list and prints one line,
  \<open>Error fetching libraries:\<close> with the exception's message. When the response has a
  status other than 200 it returns the empty list and prints nothing. In each case it
  returns: its result is a value, there is no exception for the caller.
\<close>

theorem discovery_failure:
  "(get_media_folders srv st = (Raised e, st') \<longrightarrow>
      get_libraries srv st = (([], [''Error fetching libraries: '' @ e]), st'))
   \<and> (get_media_folders srv st = (Response 200 (Inl e), st') \<longrightarrow>
      get_libraries srv st = (([], [''Error fetching libraries: '' @ e]), st'))
   \<and> (get_media_folders srv st = (Response code body, st') \<and> code \<noteq> 200 \<longrightarrow>
      get_libraries srv st = (([], []), st'))"
  by (simp add: get_libraries_def)

theorem discovery_failure_witness:
  "get_libraries (listing_server (Raised ''connection refused'')) []
     = (([], [''Error fetching libraries: connection refused'']), [Req_folders])
   \<and> get_libraries (listing_server (Response 200 (Inl ''Expecting value''))) []
     = (([], [''Error fetching libraries: Expecting value'']), [Req_folders])
   \<and> (500::nat) \<noteq> 200
   \<and> get_libraries (listing_server (Response 500 (Inl ''Expecting value''))) []
     = (([], []), [Req_folders])"
  using discovery_failure [where srv = "listing_server (Raised ''connection refused'')"
          and st = "[]" and e = "''connection refused''" and st' = "[Req_folders]"]
        discovery_failure [where srv = "listing_server (Response 200 (Inl ''Expecting value''))"
          and st = "[]" and e = "''Expecting value''" and st' = "[Req_folders]"]
        discovery_failure [where srv = "listing_server (Response 500 (Inl ''Expecting value''))"
          and st = "[]" and code = 500 and body = "Inl ''Expecting value''" and st' = "[Req_folders]"]
  by (simp add: listing_server_def)

text \<open>A response with status 500: the empty list, and no line printed.\<close>

theorem discovery_silent_on_status:
  "get_libraries (listing_server (Response 500 (Inl ''Internal Server Error''))) []
     = (([], []), [Req_folders])"
  by (simp add: get_libraries_def listing_server_def)

subsection \<open>The combined playlist\<close>









subsection \<open>What a run writes\<close>

text \<open>The playlist step only appends to the disk, and \<open>saved_files\<close> lists the names
  of the files it appended.\<close>

lemma library_files_appends:
  "\<exists>ps. library_files S wr url_type library_movies (saved_files, d) = (saved_files @ map fst ps, d @ ps)"
proof (induction library_movies arbitrary: saved_files d)
  case Nil
  show ?case by (rule exI [of _ "[]"]) simp
next
  case (Cons entry rest)
  obtain lib_name movies where entry: "entry = (lib_name, movies)" by (cases entry)
  let ?filename = "''jellyfin_'' @ safe_name lib_name @ type_suffix url_type @ ''.m3u''"
  let ?content = "the (generate_playlist_for_library S movies lib_name url_type)"
  show ?case
  proof (cases "movies \<noteq> [] \<and> truthy (generate_playlist_for_library S movies lib_name url_type)
                 \<and> wr ?filename ?content")
    case True
    from Cons.IH [of "saved_files @ [?filename]" "d @ [(?filename, ?content)]"]
    obtain ps where "library_files S wr url_type rest
                       (saved_files @ [?filename], d @ [(?filename, ?content)])
                     = ((saved_files @ [?filename]) @ map fst ps, (d @ [(?filename, ?content)]) @ ps)"
      by blast
    with True entry have "library_files S wr url_type (entry # rest) (saved_files, d)
        = (saved_files @ map fst ((?filename, ?content) # ps), d @ (?filename, ?content) # ps)"
      by (simp add: Let_def write_playlist_def)
    then show ?thesis by blast
  next
    case False
    from Cons.IH [of saved_files d]
    obtain ps where "library_files S wr url_type rest (saved_files, d)
                     = (saved_files @ map fst ps, d @ ps)"
      by blast
    with False entry have "library_files S wr url_type (entry # rest) (saved_files, d)
        = (saved_files @ map fst ps, d @ ps)"
      by (auto simp: Let_def write_playlist_def)
    then show ?thesis by blast
  qed
qed

lemma combined_file_appends:
  "\<exists>e ps. combined_file S wr url_type library_movies (saved_files, d)
            = (e, saved_files @ map fst ps, d @ ps)"
proof (cases "combined_file S wr url_type library_movies (saved_files, d) = (None, saved_files, d)
              \<or> (\<exists>e. combined_file S wr url_type library_movies (saved_files, d) = (Some e, saved_files, d))")
  case True
  then show ?thesis by (metis append_Nil2 list.simps(8))
next
  case False
  then obtain filename content where
    "combined_file S wr url_type library_movies (saved_files, d)
       = (None, saved_files @ [filename], d @ [(filename, content)])"
    by (auto simp: combined_file_def Let_def write_playlist_def split: if_splits sum.splits)
  then have "combined_file S wr url_type library_movies (saved_files, d)
       = (None, saved_files @ map fst [(filename, content)], d @ [(filename, content)])"
    by simp
  then show ?thesis by blast
qed

lemma playlists_loop_appends:
  "\<exists>e ps. playlists_loop S wr library_movies url_types (saved_files, d)
            = (e, saved_files @ map fst ps, d @ ps)"
proof (induction url_types arbitrary: saved_files d)
  case Nil
  show ?case by (rule exI [of _ None], rule exI [of _ "[]"]) simp
next
  case (Cons url_type rest)
  obtain ps1 where lib: "library_files S wr url_type library_movies (saved_files, d)
                          = (saved_files @ map fst ps1, d @ ps1)"
    using library_files_appends by blast
  obtain e ps2 where comb: "combined_file S wr url_type library_movies
                              (saved_files @ map fst ps1, d @ ps1)
                            = (e, (saved_files @ map fst ps1) @ map fst ps2, (d @ ps1) @ ps2)"
    using combined_file_appends by blast
  show ?case
  proof (cases e)
    case (Some err)
    with lib comb have "playlists_loop S wr library_movies (url_type # rest) (saved_files, d)
                          = (Some err, saved_files @ map fst (ps1 @ ps2), d @ (ps1 @ ps2))"
      by simp
    then show ?thesis by blast
  next
    case None
    from Cons.IH [of "(saved_files @ map fst ps1) @ map fst ps2" "(d @ ps1) @ ps2"]
    obtain e' ps3 where "playlists_loop S wr library_movies rest
                           ((saved_files @ map fst ps1) @ map fst ps2, (d @ ps1) @ ps2)
                         = (e', ((saved_files @ map fst ps1) @ map fst ps2) @ map fst ps3,
                            ((d @ ps1) @ ps2) @ ps3)"
      by blast
    with None lib comb have "playlists_loop S wr library_movies (url_type # rest) (saved_files, d)
                          = (e', saved_files @ map fst (ps1 @ ps2 @ ps3), d @ (ps1 @ ps2 @ ps3))"
      by simp
    then show ?thesis by blast
  qed
qed

text \<open>The summary text determines the clock reading it was made with; the selection
  does not touch the disk; and the clock is read nowhere but in the summary.\<close>

lemma summary_text_clock:
  "summary_text S t1 saved_files library_movies url_types
     = summary_text S t2 saved_files library_movies url_types \<longleftrightarrow> t1 = t2"
  by (simp add: summary_text_def)

lemma select_movies_disk:
  assumes "select_movies srv libraries w = Some (r, w')"
  shows "disk w' = disk w"
  using assms
  by (auto simp: select_movies_def Let_def split: list.splits if_splits option.splits)

lemma write_outputs_clock:
  assumes "write_outputs S wr t0 library_movies w = (Returned True, w0)"
  shows "\<exists>playlists url_types. \<forall>t.
           write_outputs S wr t library_movies w =
             (Returned True,
              w0\<lparr>disk := disk w @ playlists
                     @ (if wr ''PLAYLISTS_SUMMARY.txt''
                             (summary_text S t (map fst playlists) library_movies url_types)
                        then [(''PLAYLISTS_SUMMARY.txt'',
                               summary_text S t (map fst playlists) library_movies url_types)]
                        else [])\<rparr>)"
proof -
  from assms obtain line rest where input: "stdin w = line # rest" and nonempty: "library_movies \<noteq> []"
    by (auto simp: write_outputs_def split: if_splits list.splits)
  let ?url_types = "url_types_of_choice (strip line)"
  obtain e ps where loop: "playlists_loop S wr library_movies ?url_types ([], disk w)
                            = (e, [] @ map fst ps, disk w @ ps)"
    using playlists_loop_appends by blast
  from assms input nonempty loop have e: "e = None"
    by (cases e) (auto simp: write_outputs_def Let_def)
  from assms input nonempty loop e
  have w0: "w0 = w\<lparr>stdin := rest,
                     disk := create_summary_file S wr t0 (map fst ps) library_movies ?url_types
                               (disk w @ ps)\<rparr>"
    by (simp add: write_outputs_def Let_def)
  have "write_outputs S wr t library_movies w =
             (Returned True,
              w0\<lparr>disk := disk w @ ps
                     @ (if wr ''PLAYLISTS_SUMMARY.txt''
                             (summary_text S t (map fst ps) library_movies ?url_types)
                        then [(''PLAYLISTS_SUMMARY.txt'',
                               summary_text S t (map fst ps) library_movies ?url_types)]
                        else [])\<rparr>)" for t
    using input nonempty loop e
    by (simp add: write_outputs_def Let_def w0 create_summary_file_def)
  then show ?thesis by blast
qed

lemma generate_playlists_outputs:
  assumes "generate_playlists srv S wr t0 w = Some (Returned True, w0)"
  shows "\<exists>library_movies w1. disk w1 = disk w
           \<and> write_outputs S wr t0 library_movies w1 = (Returned True, w0)
           \<and> (\<forall>t. generate_playlists srv S wr t w = Some (write_outputs S wr t library_movies w1))"
proof -
  from assms obtain libraries st2 library_movies w1 where
    sel: "select_movies srv libraries (w\<lparr>server_state := st2\<rparr>) = Some (Inr library_movies, w1)"
    and out: "write_outputs S wr t0 library_movies w1 = (Returned True, w0)"
    and all: "\<And>t. generate_playlists srv S wr t w = Some (write_outputs S wr t library_movies w1)"
    by (auto simp: generate_playlists_def
             split: prod.splits http.splits if_splits sum.splits option.splits)
  from select_movies_disk [OF sel] have "disk w1 = disk w" by simp
  with out all show ?thesis by blast
qed


lemma write_outputs_other:
  assumes "fst (write_outputs S wr t0 library_movies w) \<noteq> Returned True"
  shows "write_outputs S wr t library_movies w = write_outputs S wr t0 library_movies w"
  using assms
  by (auto simp: write_outputs_def Let_def split: list.splits option.splits prod.splits)

lemma generate_playlists_shape:
  "generate_playlists srv S wr t w = generate_playlists srv S wr t0 w
   \<or> (\<exists>library_movies w1.
         generate_playlists srv S wr t w = Some (write_outputs S wr t library_movies w1)
         \<and> generate_playlists srv S wr t0 w = Some (write_outputs S wr t0 library_movies w1))"
  by (auto simp: generate_playlists_def split: prod.splits http.splits sum.splits option.splits)

lemma generate_playlists_other:
  assumes "map_option fst (generate_playlists srv S wr t0 w) \<noteq> Some (Returned True)"
  shows "generate_playlists srv S wr t w = generate_playlists srv S wr t0 w"
  using generate_playlists_shape [of srv S wr t w t0]
proof
  assume "generate_playlists srv S wr t w = generate_playlists srv S wr t0 w"
  then show ?thesis .
next
  assume "\<exists>library_movies w1.
         generate_playlists srv S wr t w = Some (write_outputs S wr t library_movies w1)
         \<and> generate_playlists srv S wr t0 w = Some (write_outputs S wr t0 library_movies w1)"
  then obtain library_movies w1 where
    t: "generate_playlists srv S wr t w = Some (write_outputs S wr t library_movies w1)"
    and t0: "generate_playlists srv S wr t0 w = Some (write_outputs S wr t0 library_movies w1)"
    by blast
  from assms t0 have "fst (write_outputs S wr t0 library_movies w1) \<noteq> Returned True"
    by simp
  from write_outputs_other [OF this] t t0 show ?thesis by simp
qed

text \<open>
  \<^bold>\<open>C3.\<close> Take a server, a session, the outcome of each write and the lines of
  input as fixed, and let the clock vary. If the run completes with one clock reading
  then it completes with every clock reading, with the same server state and remaining
  input, and writes the same playlist files with the same content; after them it writes
  the summary, whose text is \<open>summary_text\<close> at that clock reading and at the same
  file names, libraries and URL types. A run that does not complete (it returns
  \<open>False\<close>, ends in an exception, or never returns) is the same for every clock
  reading. Two summary texts that differ only in the clock reading are equal exactly
  when the clock readings are equal.
\<close>

theorem outputs_deterministic_up_to_clock:
  "(map_option fst (generate_playlists srv S wr t0 w) = Some (Returned True) \<longrightarrow>
      (\<exists>playlists library_movies url_types st' rest. \<forall>t.
         generate_playlists srv S wr t w =
           Some (Returned True,
                 \<lparr>server_state = st', stdin = rest,
                  disk = disk w @ playlists
                     @ (if wr ''PLAYLISTS_SUMMARY.txt''
                             (summary_text S t (map fst playlists) library_movies url_types)
                        then [(''PLAYLISTS_SUMMARY.txt'',
                               summary_text S t (map fst playlists) library_movies url_types)]
                        else [])\<rparr>)))
   \<and> (map_option fst (generate_playlists srv S wr t0 w) \<noteq> Some (Returned True) \<longrightarrow>
        generate_playlists srv S wr t w = generate_playlists srv S wr t0 w)
   \<and> (summary_text S t1 saved_files library_movies' url_types'
         = summary_text S t2 saved_files library_movies' url_types' \<longleftrightarrow> t1 = t2)"
proof (intro conjI impI)
  assume "map_option fst (generate_playlists srv S wr t0 w) = Some (Returned True)"
  then obtain w0 where "generate_playlists srv S wr t0 w = Some (Returned True, w0)"
    by (cases "generate_playlists srv S wr t0 w") auto
  from generate_playlists_outputs [OF this] obtain library_movies w1 where
    d: "disk w1 = disk w"
    and out: "write_outputs S wr t0 library_movies w1 = (Returned True, w0)"
    and all: "\<And>t. generate_playlists srv S wr t w = Some (write_outputs S wr t library_movies w1)"
    by blast
  from write_outputs_clock [OF out] obtain playlists url_types where
    "\<And>t. write_outputs S wr t library_movies w1 =
             (Returned True,
              w0\<lparr>disk := disk w1 @ playlists
                     @ (if wr ''PLAYLISTS_SUMMARY.txt''
                             (summary_text S t (map fst playlists) library_movies url_types)
                        then [(''PLAYLISTS_SUMMARY.txt'',
                               summary_text S t (map fst playlists) library_movies url_types)]
                        else [])\<rparr>)"
    by blast
  with all d have "\<And>t. generate_playlists srv S wr t w =
           Some (Returned True,
                 \<lparr>server_state = server_state w0, stdin = stdin w0,
                  disk = disk w @ playlists
                     @ (if wr ''PLAYLISTS_SUMMARY.txt''
                             (summary_text S t (map fst playlists) library_movies url_types)
                        then [(''PLAYLISTS_SUMMARY.txt'',
                               summary_text S t (map fst playlists) library_movies url_types)]
                        else [])\<rparr>)"
    by simp
  then show "\<exists>playlists library_movies url_types st' rest. \<forall>t.
         generate_playlists srv S wr t w =
           Some (Returned True,
                 \<lparr>server_state = st', stdin = rest,
                  disk = disk w @ playlists
                     @ (if wr ''PLAYLISTS_SUMMARY.txt''
                             (summary_text S t (map fst playlists) library_movies url_types)
                        then [(''PLAYLISTS_SUMMARY.txt'',
                               summary_text S t (map fst playlists) library_movies url_types)]
                        else [])\<rparr>)"
    by blast
next
  assume "map_option fst (generate_playlists srv S wr t0 w) \<noteq> Some (Returned True)"
  then show "generate_playlists srv S wr t w = generate_playlists srv S wr t0 w"
    by (rule generate_playlists_other)
next
  show "summary_text S t1 saved_files library_movies' url_types'
         = summary_text S t2 saved_files library_movies' url_types' \<longleftrightarrow> t1 = t2"
    by (rule summary_text_clock)
qed

text \<open>A run on the example server that selects the second library and simple URLs: the
  playlist file and the summary it writes, for any clock reading.\<close>

lemma example_run:
  "generate_playlists example_server example_session writable t
     \<lparr>server_state = [], stdin = [''2'', ''2'', ''1''], disk = []\<rparr>
   = Some (Returned True,
           \<lparr>server_state = [Req_info, Req_folders, Req_folders, Req_page (Some ''2'') 0],
            stdin = [],
            disk = [(''jellyfin_Kids_Movies_simple.m3u'',
                ''#EXTM3U\<newline>''
                @ ''# Jellyfin Playlist - Kids Movies\<newline>''
                @ ''# Generated from: http://host:8096\<newline>''
                @ ''# Total movies: 1\<newline>''
                @ ''# URL Format: http://host:8096/Videos/ID/stream.mp4?static=true\<newline>''
                @ ''# Note: May work without authentication in VLC\<newline>''
                @ ''\<newline>''
                @ ''#EXTINF:-1,Bambi\<newline>''
                @ ''http://host:8096/Videos/b/stream.mp4?static=true\<newline>''),
                    (''PLAYLISTS_SUMMARY.txt'',
                     summary_text example_session t [''jellyfin_Kids_Movies_simple.m3u'']
                       [(''Kids Movies'', [\<lparr>movie_id = Some ''b'', movie_name = Some ''Bambi'',
                                                run_time_ticks = None\<rparr>])] [''simple''])]\<rparr>)"
proof -
  have info: "get_system_info example_server [] = (Response 200 (Inr (Some ''Jellyfin'')), [Req_info])"
    by (simp add: example_server_def catalog_server_def)
  have libs: "get_libraries example_server [Req_info]
                = ((example_libraries, []), [Req_info, Req_folders])"
    by code_simp
  have libs_ne: "example_libraries \<noteq> []"
    by (simp add: example_libraries_def)
  have sel: "select_movies example_server example_libraries
               \<lparr>server_state = [Req_info, Req_folders], stdin = [''2'', ''2'', ''1''], disk = []\<rparr>
             = Some (Inr [(''Kids Movies'', [\<lparr>movie_id = Some ''b'', movie_name = Some ''Bambi'',
                                                run_time_ticks = None\<rparr>])],
                 \<lparr>server_state = [Req_info, Req_folders, Req_folders, Req_page (Some ''2'') 0],
                  stdin = [''1''], disk = []\<rparr>)"
    by code_simp
  have choice: "url_types_of_choice (strip ''1'') = [''simple'']"
    by code_simp
  have files: "playlists_loop example_session writable
                 [(''Kids Movies'', [\<lparr>movie_id = Some ''b'', movie_name = Some ''Bambi'',
                                                run_time_ticks = None\<rparr>])] [''simple''] ([], [])
               = (None, [''jellyfin_Kids_Movies_simple.m3u''], [(''jellyfin_Kids_Movies_simple.m3u'',
                ''#EXTM3U\<newline>''
                @ ''# Jellyfin Playlist - Kids Movies\<newline>''
                @ ''# Generated from: http://host:8096\<newline>''
                @ ''# Total movies: 1\<newline>''
                @ ''# URL Format: http://host:8096/Videos/ID/stream.mp4?static=true\<newline>''
                @ ''# Note: May work without authentication in VLC\<newline>''
                @ ''\<newline>''
                @ ''#EXTINF:-1,Bambi\<newline>''
                @ ''http://host:8096/Videos/b/stream.mp4?static=true\<newline>'')])"
    by code_simp
  show ?thesis
    by (simp add: generate_playlists_def info libs libs_ne sel write_outputs_def choice files
          create_summary_file_def writable_def del: playlists_loop.simps)
qed

theorem outputs_deterministic_up_to_clock_witness:
  "map_option fst
     (generate_playlists example_server example_session writable ''2026-01-01 00:00:00''
        \<lparr>server_state = [], stdin = [''2'', ''2'', ''1''], disk = []\<rparr>) = Some (Returned True)
   \<and> (\<exists>playlists library_movies url_types st' rest. \<forall>t.
         generate_playlists example_server example_session writable t
           \<lparr>server_state = [], stdin = [''2'', ''2'', ''1''], disk = []\<rparr> =
           Some (Returned True,
                 \<lparr>server_state = st', stdin = rest,
                  disk = playlists
                     @ [(''PLAYLISTS_SUMMARY.txt'',
                         summary_text example_session t (map fst playlists) library_movies url_types)]\<rparr>))
   \<and> map_option fst
     (generate_playlists example_server example_session writable ''2026-01-01 00:00:00''
        \<lparr>server_state = [], stdin = [], disk = []\<rparr>) \<noteq> Some (Returned True)
   \<and> generate_playlists example_server example_session writable ''2026-01-01 00:00:01''
        \<lparr>server_state = [], stdin = [], disk = []\<rparr>
     = generate_playlists example_server example_session writable ''2026-01-01 00:00:00''
        \<lparr>server_state = [], stdin = [], disk = []\<rparr>"
proof -
  have ok: "map_option fst
     (generate_playlists example_server example_session writable ''2026-01-01 00:00:00''
        \<lparr>server_state = [], stdin = [''2'', ''2'', ''1''], disk = []\<rparr>) = Some (Returned True)"
    by (simp add: example_run)
  have info: "get_system_info example_server [] = (Response 200 (Inr (Some ''Jellyfin'')), [Req_info])"
    by (simp add: example_server_def catalog_server_def)
  have libs: "get_libraries example_server [Req_info]
                = ((example_libraries, []), [Req_info, Req_folders])"
    by code_simp
  have crash: "map_option fst
     (generate_playlists example_server example_session writable ''2026-01-01 00:00:00''
        \<lparr>server_state = [], stdin = [], disk = []\<rparr>) \<noteq> Some (Returned True)"
    by (simp add: generate_playlists_def info libs example_libraries_def select_movies_def)
  from outputs_deterministic_up_to_clock
         [where srv = example_server and S = example_session and wr = writable
            and ?t0.0 = "''2026-01-01 00:00:00''"
            and w = "\<lparr>server_state = [], stdin = [''2'', ''2'', ''1''], disk = []\<rparr>"] ok
  have first: "\<exists>playlists library_movies url_types st' rest. \<forall>t.
         generate_playlists example_server example_session writable t
           \<lparr>server_state = [], stdin = [''2'', ''2'', ''1''], disk = []\<rparr> =
           Some (Returned True,
                 \<lparr>server_state = st', stdin = rest,
                  disk = playlists
                     @ [(''PLAYLISTS_SUMMARY.txt'',
                         summary_text example_session t (map fst playlists) library_movies url_types)]\<rparr>)"
    by (simp add: writable_def)
  from outputs_deterministic_up_to_clock
         [where srv = example_server and S = example_session and wr = writable
            and ?t0.0 = "''2026-01-01 00:00:00''" and t = "''2026-01-01 00:00:01''"
            and w = "\<lparr>server_state = [], stdin = [], disk = []\<rparr>"] crash
  have second: "generate_playlists example_server example_session writable ''2026-01-01 00:00:01''
        \<lparr>server_state = [], stdin = [], disk = []\<rparr>
     = generate_playlists example_server example_session writable ''2026-01-01 00:00:00''
        \<lparr>server_state = [], stdin = [], disk = []\<rparr>"
    by simp
  from ok first crash second show ?thesis by blast
qed

text \<open>Two runs with the same server, input and disk, one second apart: the same playlist,
  different summary files.\<close>

theorem summary_file_depends_on_clock:
  "generate_playlists example_server example_session writable ''2026-01-01 00:00:00''
     \<lparr>server_state = [], stdin = [''2'', ''2'', ''1''], disk = []\<rparr>
   = Some (Returned True,
           \<lparr>server_state = [Req_info, Req_folders, Req_folders, Req_page (Some ''2'') 0],
            stdin = [],
            disk = [(''jellyfin_Kids_Movies_simple.m3u'',
                ''#EXTM3U\<newline>''
                @ ''# Jellyfin Playlist - Kids Movies\<newline>''
                @ ''# Generated from: http://host:8096\<newline>''
                @ ''# Total movies: 1\<newline>''
                @ ''# URL Format: http://host:8096/Videos/ID/stream.mp4?static=true\<newline>''
                @ ''# Note: May work without authentication in VLC\<newline>''
                @ ''\<newline>''
                @ ''#EXTINF:-1,Bambi\<newline>''
                @ ''http://host:8096/Videos/b/stream.mp4?static=true\<newline>''),
                    (''PLAYLISTS_SUMMARY.txt'',
                     summary_text example_session ''2026-01-01 00:00:00'' [''jellyfin_Kids_Movies_simple.m3u'']
                       [(''Kids Movies'', [\<lparr>movie_id = Some ''b'', movie_name = Some ''Bambi'',
                                                run_time_ticks = None\<rparr>])] [''simple''])]\<rparr>)
   \<and> generate_playlists example_server example_session writable ''2026-01-01 00:00:01''
     \<lparr>server_state = [], stdin = [''2'', ''2'', ''1''], disk = []\<rparr>
   = Some (Returned True,
           \<lparr>server_state = [Req_info, Req_folders, Req_folders, Req_page (Some ''2'') 0],
            stdin = [],
            disk = [(''jellyfin_Kids_Movies_simple.m3u'',
                ''#EXTM3U\<newline>''
                @ ''# Jellyfin Playlist - Kids Movies\<newline>''
                @ ''# Generated from: http://host:8096\<newline>''
                @ ''# Total movies: 1\<newline>''
                @ ''# URL Format: http://host:8096/Videos/ID/stream.mp4?static=true\<newline>''
                @ ''# Note: May work without authentication in VLC\<newline>''
                @ ''\<newline>''
                @ ''#EXTINF:-1,Bambi\<newline>''
                @ ''http://host:8096/Videos/b/stream.mp4?static=true\<newline>''),
                    (''PLAYLISTS_SUMMARY.txt'',
                     summary_text example_session ''2026-01-01 00:00:01'' [''jellyfin_Kids_Movies_simple.m3u'']
                       [(''Kids Movies'', [\<lparr>movie_id = Some ''b'', movie_name = Some ''Bambi'',
                                                run_time_ticks = None\<rparr>])] [''simple''])]\<rparr>)
   \<and> summary_text example_session ''2026-01-01 00:00:00'' [''jellyfin_Kids_Movies_simple.m3u'']
                       [(''Kids Movies'', [\<lparr>movie_id = Some ''b'', movie_name = Some ''Bambi'',
                                                run_time_ticks = None\<rparr>])] [''simple'']
     \<noteq> summary_text example_session ''2026-01-01 00:00:01'' [''jellyfin_Kids_Movies_simple.m3u'']
                       [(''Kids Movies'', [\<lparr>movie_id = Some ''b'', movie_name = Some ''Bambi'',
                                                run_time_ticks = None\<rparr>])] [''simple'']"
  using example_run [of "''2026-01-01 00:00:00''"] example_run [of "''2026-01-01 00:00:01''"]
  by (simp add: summary_text_clock)

end
